theory Spec2Isabelle
  imports Main "HOL-Library.Word" "HOL-Library.AList"
begin

section \<open>Horizontal scaling (controllers/apps/operations/horizontal\_scaling.go)\<close>

subsection \<open>Data model\<close>

text \<open>
  Go's \<open>int32\<close> is a 32-bit word: \<open>+\<close> and \<open>-\<close> wrap around, and the
  comparisons of the source are signed, so they are written on \<open>sint\<close>.
\<close>

type_synonym int32 = "32 word"

text \<open>
  The errors the handler can return. \<open>FatalError\<close> is \<open>intctrlutil.NewFatalError\<close>
  (the message is kept as its kind, the names that Go formats into it follow the
  iteration order of a Go map and are left out), \<open>NilPointerPanic\<close> is the
  run-time panic of dereferencing a nil pointer, and \<open>CollaboratorError\<close> wraps an
  error returned by a function of another package.
\<close>

datatype fatal =
    TemplateReplicasExceedComponent string
  | InstancesNotExist
  | InstancesHasDuplicates
  | InstancesNotOnlineOrNotExist
  | InstancesNotOfflineOrNotExist
  | InstanceCreatedByAnotherOps string

datatype error =
    FatalError fatal
  | NilPointerPanic
  | CollaboratorError string

text \<open>
  The handler reads and writes the name and the replica count of an instance template,
  and the name, the replica count, the templates and the offline instances of a
  component; every other field of the two structs is carried along untouched and is kept
  as one opaque value (\<open>IT_Other\<close>, \<open>CS_Other\<close>).
\<close>

record InstanceTemplate =
  IT_Name :: string
  IT_Replicas :: "int32 option"
  IT_Other :: string

record InstanceReplicasTemplate =
  IRT_Name :: string
  IRT_ReplicaChanges :: int32

record ReplicaChanger =
  ReplicaChanges :: "int32 option"
  Instances :: "InstanceReplicasTemplate list"

record ScaleIn = ReplicaChanger +
  OnlineInstancesToOffline :: "string list"

record ScaleOut = ReplicaChanger +
  NewInstances :: "InstanceTemplate list"
  OfflineInstancesToOnline :: "string list"

record HorizontalScaling =
  ComponentName :: string
  HS_Replicas :: "int32 option"
  HS_ScaleOut :: "ScaleOut option"
  HS_ScaleIn :: "ScaleIn option"

record LastComponentConfiguration =
  LC_Replicas :: "int32 option"
  LC_Instances :: "InstanceTemplate list"
  LC_OfflineInstances :: "string list"

record ClusterComponentSpec =
  CS_Name :: string
  CS_Replicas :: int32
  CS_Instances :: "InstanceTemplate list"
  CS_OfflineInstances :: "string list"
  CS_Other :: string

datatype OpsPhase =
    OpsPendingPhase | OpsCreatingPhase | OpsRunningPhase | OpsCancellingPhase
  | OpsSucceedPhase | OpsCancelledPhase | OpsFailedPhase | OpsAbortedPhase

datatype OpsType = HorizontalScalingType | StartType | StopType | OtherOpsType string

record OpsRequest =
  OR_Name :: string
  OR_Annotations :: "string \<rightharpoonup> string"
  OR_Type :: OpsType
  OR_HorizontalScalingList :: "HorizontalScaling list"
  OR_Phase :: OpsPhase
  OR_LastConfiguration :: "string \<rightharpoonup> LastComponentConfiguration"

record Cluster =
  CL_Name :: string
  CL_ComponentSpecs :: "ClusterComponentSpec list"

record OpsResource =
  OpsRequest :: OpsRequest
  Cluster :: Cluster

text \<open>A \<open>map[string]string\<close> with the instance names as keys, in some iteration order.\<close>

type_synonym podset = "(string \<times> string) list"

text \<open>
  The functions and constants of other packages that the handler calls and that are not
  part of the sources under verification are parameters of the model:
  \<^item> \<open>GenerateAllPodNamesToSet\<close> (package component): the instance-name derivation;
  \<^item> \<open>GetInstanceTemplateName\<close> and \<open>CountOfflineOrOnlineInstances\<close> (package v1alpha1);
  \<^item> \<open>UnsortedList\<close>: the order in which Go lists the members of a \<open>sets.Set\<close>;
  \<^item> \<open>getMissingElementsInSetFromList\<close> and \<open>getComponentSpecOrShardingTemplate\<close>
    (package operations);
  \<^item> \<open>defaultInstanceTemplateReplicas\<close>: what \<open>InstanceTemplate.GetReplicas\<close> returns
    for a template whose \<open>Replicas\<close> is nil;
  \<^item> the annotation key and the value of the strict validation policy (package constant).
\<close>

record collab =
  GenerateAllPodNamesToSet ::
    "int32 \<Rightarrow> InstanceTemplate list \<Rightarrow> string list \<Rightarrow> string \<Rightarrow> string \<Rightarrow> string + podset"
  GetInstanceTemplateName :: "string \<Rightarrow> string \<Rightarrow> string \<Rightarrow> string"
  CountOfflineOrOnlineInstances :: "string \<Rightarrow> string \<Rightarrow> string list \<Rightarrow> (string \<times> int32) list"
  UnsortedList :: "string list \<Rightarrow> string list"
  getMissingElementsInSetFromList :: "string list \<Rightarrow> string list \<Rightarrow> string list"
  getComponentSpecOrShardingTemplate :: "Cluster \<Rightarrow> string \<Rightarrow> ClusterComponentSpec option"
  defaultInstanceTemplateReplicas :: int32
  HscaleValidatePolicyKey :: string
  HscaleValidatePolicyStrict :: string

text \<open>
  Modelled from the spec: \<open>InstanceTemplate.GetReplicas\<close> is declared with the API types,
  outside the sources; a template owns a replica count (data model of the spec), and the
  accessor returns it, or the default for a nil pointer.
\<close>

definition GetReplicas :: "collab \<Rightarrow> InstanceTemplate \<Rightarrow> int32" where
  "GetReplicas c t = (case IT_Replicas t of Some r \<Rightarrow> r | None \<Rightarrow> defaultInstanceTemplateReplicas c)"

text \<open>
  A \<open>sets.Set\<close> is kept as a list without duplicates: \<open>Insert\<close> adds a member
  that is not there yet, \<open>sets.New\<close> inserts all, \<open>Union\<close> inserts the members of the
  second set into the first, \<open>Len\<close> is the length.
\<close>

definition setsInsert :: "'a list \<Rightarrow> 'a \<Rightarrow> 'a list" where
  "setsInsert s x = (if x \<in> set s then s else s @ [x])"

definition setsNew :: "'a list \<Rightarrow> 'a list" where
  "setsNew xs = foldl setsInsert [] xs"

definition setsUnion :: "'a list \<Rightarrow> 'a list \<Rightarrow> 'a list" where
  "setsUnion s1 s2 = foldl setsInsert s1 s2"

text \<open>
  The keys of a pod set, which is what the membership tests \<open>_, ok := podSet[name]\<close>
  of the source look at.
\<close>

definition podNames :: "podset \<Rightarrow> string set" where
  "podNames m = fst ` set m"

subsection \<open>The expected topology: getExpectedCompValues and its parts\<close>

text \<open>
  \<open>filterHorizontalScalingSpec\<close>: only offlined instances can be taken online and only
  onlined instances can be taken offline. The lists are rebuilt from a set, so they lose
  their duplicates and come back in the order of \<open>UnsortedList\<close>.
\<close>

definition filterScaleIn :: "collab \<Rightarrow> podset \<Rightarrow> ScaleIn \<Rightarrow> ScaleIn" where
  "filterScaleIn c podSet scaleIn =
     (if OnlineInstancesToOffline scaleIn \<noteq> []
      then scaleIn\<lparr>OnlineInstancesToOffline :=
             UnsortedList c (foldl (\<lambda>s insName. if insName \<in> podNames podSet then setsInsert s insName else s)
                               [] (OnlineInstancesToOffline scaleIn))\<rparr>
      else scaleIn)"

definition filterScaleOut :: "collab \<Rightarrow> string list \<Rightarrow> ScaleOut \<Rightarrow> ScaleOut" where
  "filterScaleOut c offlineInstances scaleOut =
     (if OfflineInstancesToOnline scaleOut \<noteq> []
      then scaleOut\<lparr>OfflineInstancesToOnline :=
             UnsortedList c (foldl (\<lambda>s insName. if insName \<in> set offlineInstances then setsInsert s insName else s)
                               [] (OfflineInstancesToOnline scaleOut))\<rparr>
      else scaleOut)"

definition filterHorizontalScalingSpec ::
  "collab \<Rightarrow> OpsResource \<Rightarrow> int32 \<Rightarrow> InstanceTemplate list \<Rightarrow> string list \<Rightarrow> HorizontalScaling
     \<Rightarrow> error + HorizontalScaling" where
  "filterHorizontalScalingSpec c opsRes compReplicas compInstanceTpls compOfflineInstances horizontalScaling =
     (case GenerateAllPodNamesToSet c compReplicas compInstanceTpls compOfflineInstances
             (CL_Name (Cluster opsRes)) (ComponentName horizontalScaling) of
        Inl msg \<Rightarrow> Inl (CollaboratorError msg)
      | Inr podSet \<Rightarrow>
          Inr (horizontalScaling
                 \<lparr>HS_ScaleIn := map_option (filterScaleIn c podSet) (HS_ScaleIn horizontalScaling),
                  HS_ScaleOut := map_option (filterScaleOut c (setsNew compOfflineInstances))
                                   (HS_ScaleOut horizontalScaling)\<rparr>))"

text \<open>
  \<open>getSyncedInstancesAndReplicaChanges\<close>, the closure of \<open>autoSyncReplicaChanges\<close>. The
  count map is ranged over in the order the collaborator returns it.
\<close>

definition getSyncedInstancesAndReplicaChanges ::
  "collab \<Rightarrow> (string \<times> int32) list \<Rightarrow> 'a ReplicaChanger_scheme \<Rightarrow> InstanceTemplate list
     \<Rightarrow> InstanceReplicasTemplate list \<times> int32 option" where
  "getSyncedInstancesAndReplicaChanges c offlineOrOnlineInsCountMap replicaChanger newInstances =
     (let allReplicaChanges1 = foldl (\<lambda>a v. a + IRT_ReplicaChanges v) 0 (Instances replicaChanger);
          insTplMap = set (map IRT_Name (Instances replicaChanger));
          (instances, allReplicaChanges2) =
             foldl (\<lambda>(ins, a) (k, v).
                      if k = [] then (ins, a + v)
                      else if k \<notin> insTplMap
                           then (ins @ [\<lparr>IRT_Name = k, IRT_ReplicaChanges = v\<rparr>], a + v)
                           else (ins, a))
                   (Instances replicaChanger, allReplicaChanges1) offlineOrOnlineInsCountMap;
          allReplicaChanges3 = foldl (\<lambda>a v. a + GetReplicas c v) allReplicaChanges2 newInstances;
          allReplicaChanges4 = (case ReplicaChanges replicaChanger of
                                  Some r \<Rightarrow> r | None \<Rightarrow> allReplicaChanges3)
      in (instances, Some allReplicaChanges4))"

text \<open>
  \<open>autoSyncReplicaChanges\<close> writes the synced values through the \<open>ScaleIn\<close> and
  \<open>ScaleOut\<close> pointers of its argument; the model returns the updated request. Its error
  result is always nil.
\<close>

definition autoSyncReplicaChanges ::
  "collab \<Rightarrow> OpsResource \<Rightarrow> HorizontalScaling \<Rightarrow> int32 \<Rightarrow> InstanceTemplate list \<Rightarrow> string list
     \<Rightarrow> error + HorizontalScaling" where
  "autoSyncReplicaChanges c opsRes horizontalScaling compReplicas compInstanceTpls compExpectOfflineInstances =
     (let scaleIn' = map_option (\<lambda>scaleIn.
            let offlineInsCountMap = CountOfflineOrOnlineInstances c (CL_Name (Cluster opsRes))
                   (ComponentName horizontalScaling) (OnlineInstancesToOffline scaleIn);
                (ins, rc) = getSyncedInstancesAndReplicaChanges c offlineInsCountMap scaleIn []
            in scaleIn\<lparr>Instances := ins, ReplicaChanges := rc\<rparr>) (HS_ScaleIn horizontalScaling);
          scaleOut' = map_option (\<lambda>scaleOut.
            let onlineInsCountMap = CountOfflineOrOnlineInstances c (CL_Name (Cluster opsRes))
                   (ComponentName horizontalScaling) (OfflineInstancesToOnline scaleOut);
                (ins, rc) = getSyncedInstancesAndReplicaChanges c onlineInsCountMap scaleOut
                              (NewInstances scaleOut)
            in scaleOut\<lparr>Instances := ins, ReplicaChanges := rc\<rparr>) (HS_ScaleOut horizontalScaling)
      in Inr (horizontalScaling\<lparr>HS_ScaleIn := scaleIn', HS_ScaleOut := scaleOut'\<rparr>))"

definition getCompExpectReplicas :: "HorizontalScaling \<Rightarrow> int32 \<Rightarrow> int32" where
  "getCompExpectReplicas horizontalScaling compReplicas =
     (case HS_Replicas horizontalScaling of
        Some r \<Rightarrow> r
      | None \<Rightarrow>
          (let compReplicas1 = (case HS_ScaleOut horizontalScaling of
                 Some scaleOut \<Rightarrow> (case ReplicaChanges scaleOut of
                                     Some rc \<Rightarrow> compReplicas + rc | None \<Rightarrow> compReplicas)
               | None \<Rightarrow> compReplicas)
           in (case HS_ScaleIn horizontalScaling of
                 Some scaleIn \<Rightarrow> (case ReplicaChanges scaleIn of
                                    Some rc \<Rightarrow> compReplicas1 - rc | None \<Rightarrow> compReplicas1)
               | None \<Rightarrow> compReplicas1)))"

text \<open>
  What \<open>getCompExpectReplicas\<close> adds for the \<open>ScaleOut\<close> section and subtracts for the
  \<open>ScaleIn\<close> section: the \<open>ReplicaChanges\<close> of the section, and nothing when the
  section or the pointer is nil.
\<close>

definition replicaChangesOf :: "'a ReplicaChanger_scheme option \<Rightarrow> int32" where
  "replicaChangesOf section =
     (case section of
        Some s \<Rightarrow> (case ReplicaChanges s of Some rc \<Rightarrow> rc | None \<Rightarrow> 0)
      | None \<Rightarrow> 0)"

text \<open>
  \<open>getCompExpectedInstances\<close>. \<open>compInsTplSet\<close> maps a template name to its index (the
  last one, when a name occurs twice) in the templates the function was given, before
  the new instances are appended; \<open>handleInstanceTplReplicaChanges\<close> updates the
  templates found there and skips the other names.
\<close>

definition compInsTplSet :: "InstanceTemplate list \<Rightarrow> string \<rightharpoonup> nat" where
  "compInsTplSet compInstanceTpls =
     map_of (rev (zip (map IT_Name compInstanceTpls) [0..<length compInstanceTpls]))"

definition handleInstanceTplReplicaChanges ::
  "collab \<Rightarrow> (string \<rightharpoonup> nat) \<Rightarrow> InstanceReplicasTemplate list \<Rightarrow> bool \<Rightarrow> InstanceTemplate list
     \<Rightarrow> InstanceTemplate list" where
  "handleInstanceTplReplicaChanges c insTplSet instances isScaleIn compInstanceTpls =
     foldl (\<lambda>tpls v.
              case insTplSet (IRT_Name v) of
                None \<Rightarrow> tpls
              | Some compInsIndex \<Rightarrow>
                  if isScaleIn
                  then tpls[compInsIndex := (tpls ! compInsIndex)
                         \<lparr>IT_Replicas := Some (GetReplicas c (tpls ! compInsIndex) - IRT_ReplicaChanges v)\<rparr>]
                  else tpls[compInsIndex := (tpls ! compInsIndex)
                         \<lparr>IT_Replicas := Some (GetReplicas c (tpls ! compInsIndex) + IRT_ReplicaChanges v)\<rparr>])
           compInstanceTpls instances"

definition getCompExpectedInstances ::
  "collab \<Rightarrow> InstanceTemplate list \<Rightarrow> HorizontalScaling \<Rightarrow> InstanceTemplate list" where
  "getCompExpectedInstances c compInstanceTpls horizontalScaling =
     (if HS_Replicas horizontalScaling \<noteq> None then compInstanceTpls
      else
        (let insTplSet = compInsTplSet compInstanceTpls;
             tpls1 = (case HS_ScaleOut horizontalScaling of
                        Some scaleOut \<Rightarrow>
                          handleInstanceTplReplicaChanges c insTplSet (Instances scaleOut) False
                            (compInstanceTpls @ NewInstances scaleOut)
                      | None \<Rightarrow> compInstanceTpls)
         in (case HS_ScaleIn horizontalScaling of
               Some scaleIn \<Rightarrow> handleInstanceTplReplicaChanges c insTplSet (Instances scaleIn) True tpls1
             | None \<Rightarrow> tpls1)))"

definition handleOfflineInstances :: "string list \<Rightarrow> string list \<Rightarrow> string list \<Rightarrow> string list" where
  "handleOfflineInstances baseInstanceNames comparedInstanceNames newOfflineInstances =
     foldl (\<lambda>new instanceName.
              if instanceName \<notin> set (setsNew comparedInstanceNames) then new @ [instanceName] else new)
           newOfflineInstances baseInstanceNames"

definition getCompExpectedOfflineInstances :: "string list \<Rightarrow> HorizontalScaling \<Rightarrow> string list" where
  "getCompExpectedOfflineInstances compOfflineInstances horizontalScaling =
     (let compOfflineInstances1 =
            (case HS_ScaleIn horizontalScaling of
               Some scaleIn \<Rightarrow>
                 if OnlineInstancesToOffline scaleIn \<noteq> []
                 then handleOfflineInstances (OnlineInstancesToOffline scaleIn)
                        compOfflineInstances compOfflineInstances
                 else compOfflineInstances
             | None \<Rightarrow> compOfflineInstances)
      in (case HS_ScaleOut horizontalScaling of
            Some scaleOut \<Rightarrow>
              if OfflineInstancesToOnline scaleOut \<noteq> []
              then handleOfflineInstances compOfflineInstances1 (OfflineInstancesToOnline scaleOut) []
              else compOfflineInstances1
          | None \<Rightarrow> compOfflineInstances1))"

text \<open>
  \<open>getExpectedCompValues\<close>: the baseline is the component spec when the request sets
  \<open>replicas\<close>, and the last configuration otherwise (whose \<open>Replicas\<close> pointer is then
  dereferenced).
\<close>

definition getExpectedCompValues ::
  "collab \<Rightarrow> OpsResource \<Rightarrow> ClusterComponentSpec \<Rightarrow> LastComponentConfiguration \<Rightarrow> HorizontalScaling
     \<Rightarrow> error + (int32 \<times> InstanceTemplate list \<times> string list)" where
  "getExpectedCompValues c opsRes compSpec lastCompConfiguration horizontalScaling =
     (case (if HS_Replicas horizontalScaling = None
            then (case LC_Replicas lastCompConfiguration of
                    None \<Rightarrow> Inl NilPointerPanic
                  | Some r \<Rightarrow> Inr (r, LC_Instances lastCompConfiguration,
                                    LC_OfflineInstances lastCompConfiguration))
            else Inr (CS_Replicas compSpec, CS_Instances compSpec, CS_OfflineInstances compSpec)) of
        Inl e \<Rightarrow> Inl e
      | Inr (compReplicas, compInstanceTpls, compOfflineInstances) \<Rightarrow>
          (case filterHorizontalScalingSpec c opsRes compReplicas compInstanceTpls compOfflineInstances
                  horizontalScaling of
             Inl e \<Rightarrow> Inl e
           | Inr filteredHorizontal \<Rightarrow>
               (let expectOfflineInstances =
                      getCompExpectedOfflineInstances compOfflineInstances filteredHorizontal
                in (case autoSyncReplicaChanges c opsRes filteredHorizontal compReplicas compInstanceTpls
                           expectOfflineInstances of
                      Inl e \<Rightarrow> Inl e
                    | Inr syncedHorizontal \<Rightarrow>
                        Inr (getCompExpectReplicas syncedHorizontal compReplicas,
                             getCompExpectedInstances c compInstanceTpls syncedHorizontal,
                             expectOfflineInstances)))))"

subsection \<open>The created and deleted instance sets\<close>

text \<open>
  The two loops of \<open>getCreateAndDeletePodSet\<close> that compare the pod sets: every key
  of \<open>a\<close> that is no key of \<open>b\<close> is assigned its template name.
\<close>

definition podSetMinus :: "(string \<Rightarrow> string) \<Rightarrow> podset \<Rightarrow> podset \<Rightarrow> podset" where
  "podSetMinus tplName a b =
     foldl (\<lambda>m k. if k \<notin> podNames b then AList.update k (tplName k) m else m) [] (map fst a)"

definition assignAll :: "(string \<Rightarrow> string) \<Rightarrow> string list \<Rightarrow> podset \<Rightarrow> podset" where
  "assignAll tplName names m = foldl (\<lambda>m v. AList.update v (tplName v) m) m names"

definition getCreateAndDeletePodSet ::
  "collab \<Rightarrow> OpsResource \<Rightarrow> LastComponentConfiguration \<Rightarrow> ClusterComponentSpec \<Rightarrow> HorizontalScaling
     \<Rightarrow> string \<Rightarrow> error + (podset \<times> podset)" where
  "getCreateAndDeletePodSet c opsRes lastCompConfiguration currCompSpec horizontalScaling fullCompName =
     (let clusterName = CL_Name (Cluster opsRes) in
      case LC_Replicas lastCompConfiguration of
        None \<Rightarrow> Inl NilPointerPanic
      | Some lastReplicas \<Rightarrow>
      (case GenerateAllPodNamesToSet c lastReplicas (LC_Instances lastCompConfiguration)
              (LC_OfflineInstances lastCompConfiguration) clusterName fullCompName of
         Inl msg \<Rightarrow> Inl (CollaboratorError msg)
       | Inr lastPodSet \<Rightarrow>
      (case getExpectedCompValues c opsRes currCompSpec lastCompConfiguration horizontalScaling of
         Inl e \<Rightarrow> Inl e
       | Inr (expectReplicas, expectInstanceTpls, expectOfflineInstances) \<Rightarrow>
      (case GenerateAllPodNamesToSet c expectReplicas expectInstanceTpls expectOfflineInstances
              clusterName fullCompName of
         Inl msg \<Rightarrow> Inl (CollaboratorError msg)
       | Inr currPodSet \<Rightarrow>
           (let tplName = GetInstanceTemplateName c clusterName fullCompName;
                createPodSet1 = podSetMinus tplName currPodSet lastPodSet;
                deletePodSet1 = podSetMinus tplName lastPodSet currPodSet;
                deletePodSet = (case HS_ScaleIn horizontalScaling of
                                  Some scaleIn \<Rightarrow>
                                    assignAll tplName (OnlineInstancesToOffline scaleIn) deletePodSet1
                                | None \<Rightarrow> deletePodSet1);
                createPodSet = (case HS_ScaleOut horizontalScaling of
                                  Some scaleOut \<Rightarrow>
                                    assignAll tplName (OfflineInstancesToOnline scaleOut) createPodSet1
                                | None \<Rightarrow> createPodSet1)
            in if OR_Phase (OpsRequest opsRes) = OpsCancellingPhase
               then Inr (deletePodSet, createPodSet)
               else Inr (createPodSet, deletePodSet))))))"

subsection \<open>Validation of a request\<close>

definition collectOnlineAndOfflineAndNotExistInstances ::
  "string list \<Rightarrow> string list \<Rightarrow> podset \<Rightarrow> string list \<times> string list \<times> string list" where
  "collectOnlineAndOfflineAndNotExistInstances instance offlineInstances currPodSet =
     foldl (\<lambda>(onlined, offlined, notExist) insName.
              if insName \<in> set offlineInstances then (onlined, setsInsert offlined insName, notExist)
              else if insName \<in> podNames currPodSet then (setsInsert onlined insName, offlined, notExist)
              else (onlined, offlined, setsInsert notExist insName))
           ([], [], []) instance"

definition collecteAllTypeOfInstancesFromOps ::
  "HorizontalScaling \<Rightarrow> podset \<Rightarrow> string list \<Rightarrow> string list \<times> string list \<times> string list" where
  "collecteAllTypeOfInstancesFromOps horizontalScaling currPodSet offlineInstances =
     (let (onlinedInstanceFromScaleInOps, notExist1) =
            (case HS_ScaleIn horizontalScaling of
               Some scaleIn \<Rightarrow>
                 if OnlineInstancesToOffline scaleIn \<noteq> []
                 then (case collectOnlineAndOfflineAndNotExistInstances (OnlineInstancesToOffline scaleIn)
                              offlineInstances currPodSet of
                         (onlined, _, notExistInstanceFromScaleIn) \<Rightarrow>
                           (onlined, if length notExistInstanceFromScaleIn > 0
                                     then setsUnion [] notExistInstanceFromScaleIn else []))
                 else ([], [])
             | None \<Rightarrow> ([], []));
          (offlinedInstanceFromScaleOutOps, notExist2) =
            (case HS_ScaleOut horizontalScaling of
               Some scaleOut \<Rightarrow>
                 if OfflineInstancesToOnline scaleOut \<noteq> []
                 then (case collectOnlineAndOfflineAndNotExistInstances (OfflineInstancesToOnline scaleOut)
                              offlineInstances currPodSet of
                         (_, offlined, notExistInstanceFromScaleOut) \<Rightarrow>
                           (offlined, if length notExistInstanceFromScaleOut > 0
                                      then setsUnion notExist1 notExistInstanceFromScaleOut else notExist1))
                 else ([], notExist1)
             | None \<Rightarrow> ([], notExist1))
      in (onlinedInstanceFromScaleInOps, offlinedInstanceFromScaleOutOps, notExist2))"

definition strictPolicyValidation ::
  "collab \<Rightarrow> HorizontalScaling \<Rightarrow> string list \<Rightarrow> string list \<Rightarrow> error + unit" where
  "strictPolicyValidation c horizontalScaling onlinedInstanceFromScaleInOps offlinedInstanceFromScaleOutOps =
     (case (case HS_ScaleIn horizontalScaling of
              Some scaleIn \<Rightarrow>
                if OnlineInstancesToOffline scaleIn \<noteq> []
                   \<and> length onlinedInstanceFromScaleInOps \<noteq> length (OnlineInstancesToOffline scaleIn)
                then (if getMissingElementsInSetFromList c onlinedInstanceFromScaleInOps
                           (OnlineInstancesToOffline scaleIn) = []
                      then Inl (FatalError InstancesHasDuplicates)
                      else Inl (FatalError InstancesNotOnlineOrNotExist))
                else Inr ()
            | None \<Rightarrow> Inr ()) of
        Inl e \<Rightarrow> Inl e
      | Inr _ \<Rightarrow>
          (case HS_ScaleOut horizontalScaling of
             Some scaleOut \<Rightarrow>
               if OfflineInstancesToOnline scaleOut \<noteq> []
                  \<and> length offlinedInstanceFromScaleOutOps \<noteq> length (OfflineInstancesToOnline scaleOut)
               then (if getMissingElementsInSetFromList c offlinedInstanceFromScaleOutOps
                          (OfflineInstancesToOnline scaleOut) = []
                     then Inl (FatalError InstancesHasDuplicates)
                     else Inl (FatalError InstancesNotOfflineOrNotExist))
               else Inr ()
           | None \<Rightarrow> Inr ()))"

definition validateHorizontalScalingWithPolicy ::
  "collab \<Rightarrow> OpsResource \<Rightarrow> LastComponentConfiguration \<Rightarrow> HorizontalScaling \<Rightarrow> error + unit" where
  "validateHorizontalScalingWithPolicy c opsRes lastCompConfiguration horizontalScaling =
     (case LC_Replicas lastCompConfiguration of
        None \<Rightarrow> Inl NilPointerPanic
      | Some lastReplicas \<Rightarrow>
      (case GenerateAllPodNamesToSet c lastReplicas (LC_Instances lastCompConfiguration)
              (LC_OfflineInstances lastCompConfiguration) (CL_Name (Cluster opsRes))
              (ComponentName horizontalScaling) of
         Inl msg \<Rightarrow> Inl (CollaboratorError msg)
       | Inr currPodSet \<Rightarrow>
           (let offlineInstances = setsNew (LC_OfflineInstances lastCompConfiguration) in
            case collecteAllTypeOfInstancesFromOps horizontalScaling currPodSet offlineInstances of
              (onlinedInstanceFromScaleInOps, offlinedInstanceFromScaleOutOps, notExistInstanceFromOps) \<Rightarrow>
                if length notExistInstanceFromOps > 0 then Inl (FatalError InstancesNotExist)
                else (case OR_Annotations (OpsRequest opsRes) (HscaleValidatePolicyKey c) of
                        Some policy \<Rightarrow>
                          if policy \<noteq> HscaleValidatePolicyStrict c then Inr ()
                          else strictPolicyValidation c horizontalScaling
                                 onlinedInstanceFromScaleInOps offlinedInstanceFromScaleOutOps
                      | None \<Rightarrow>
                          strictPolicyValidation c horizontalScaling
                            onlinedInstanceFromScaleInOps offlinedInstanceFromScaleOutOps))))"

subsection \<open>Action, SaveLastConfiguration and Cancel for one component\<close>

text \<open>
  \<open>Components[name]\<close> on the map of last configurations: the zero value when the name
  is no key.
\<close>

definition lastConfigurationOf :: "OpsRequest \<Rightarrow> string \<Rightarrow> LastComponentConfiguration" where
  "lastConfigurationOf ops name =
     (case OR_LastConfiguration ops name of
        Some l \<Rightarrow> l
      | None \<Rightarrow> \<lparr>LC_Replicas = None, LC_Instances = [], LC_OfflineInstances = []\<rparr>)"

text \<open>
  The function that \<open>Action\<close> hands to \<open>updateClusterComponentsAndShardings\<close>, which
  calls it on each component spec that the request names. The three assignments to the
  spec come after every check, so an error leaves the spec as it was: the model returns
  the error alone.
\<close>

definition Action_updateComp ::
  "collab \<Rightarrow> OpsResource \<Rightarrow> ClusterComponentSpec \<Rightarrow> HorizontalScaling \<Rightarrow> error + ClusterComponentSpec" where
  "Action_updateComp c opsRes compSpec horizontalScaling =
     (let lastCompConfiguration =
            lastConfigurationOf (OpsRequest opsRes) (ComponentName horizontalScaling) in
      case validateHorizontalScalingWithPolicy c opsRes lastCompConfiguration horizontalScaling of
        Inl e \<Rightarrow> Inl e
      | Inr _ \<Rightarrow>
      (case getExpectedCompValues c opsRes compSpec lastCompConfiguration horizontalScaling of
         Inl e \<Rightarrow> Inl e
       | Inr (replicas, instances, offlineInstances) \<Rightarrow>
           (let insReplicas = foldl (\<lambda>a v. a + GetReplicas c v) 0 instances in
            if sint insReplicas > sint replicas
            then Inl (FatalError (TemplateReplicasExceedComponent (ComponentName horizontalScaling)))
            else Inr (compSpec\<lparr>CS_Replicas := replicas, CS_Instances := instances,
                               CS_OfflineInstances := offlineInstances\<rparr>))))"

text \<open>The closure \<open>getLastComponentInfo\<close> of \<open>SaveLastConfiguration\<close>.\<close>

definition getLastComponentInfo ::
  "ClusterComponentSpec \<Rightarrow> HorizontalScaling \<Rightarrow> LastComponentConfiguration" where
  "getLastComponentInfo compSpec comOps =
     \<lparr>LC_Replicas = Some (CS_Replicas compSpec),
      LC_Instances = CS_Instances compSpec,
      LC_OfflineInstances = CS_OfflineInstances compSpec\<rparr>"

text \<open>
  The function that \<open>Cancel\<close> hands to \<open>cancelComponentOps\<close>; it dereferences the
  \<open>Replicas\<close> pointer of the last configuration first.
\<close>

definition Cancel_updateComp ::
  "LastComponentConfiguration \<Rightarrow> ClusterComponentSpec \<Rightarrow> error + ClusterComponentSpec" where
  "Cancel_updateComp lastConfig compSpec =
     (case LC_Replicas lastConfig of
        None \<Rightarrow> Inl NilPointerPanic
      | Some r \<Rightarrow> Inr (compSpec\<lparr>CS_Replicas := r, CS_Instances := LC_Instances lastConfig,
                            CS_OfflineInstances := LC_OfflineInstances lastConfig\<rparr>))"

subsection \<open>Conflicts with an earlier operation\<close>

text \<open>
  The closure \<open>getCreatedOrDeletedPodSet\<close> of \<open>checkIntersectionWithEarlierOps\<close>. The
  component spec is looked up under the earlier request's component name, and a spec that
  is not found is a nil pointer, read by \<open>getExpectedCompValues\<close>.
\<close>

definition getCreatedOrDeletedPodSet ::
  "collab \<Rightarrow> OpsResource \<Rightarrow> HorizontalScaling \<Rightarrow> OpsRequest \<Rightarrow> HorizontalScaling
     \<Rightarrow> error + (podset \<times> podset)" where
  "getCreatedOrDeletedPodSet c opsRes earlierOpsHScaling ops hScaling =
     (let lastCompSnapshot = lastConfigurationOf ops (ComponentName earlierOpsHScaling) in
      case getComponentSpecOrShardingTemplate c (Cluster opsRes) (ComponentName earlierOpsHScaling) of
        None \<Rightarrow> Inl NilPointerPanic
      | Some compSpec \<Rightarrow>
      (case getExpectedCompValues c opsRes compSpec lastCompSnapshot hScaling of
         Inl e \<Rightarrow> Inl e
       | Inr (replicas, instances, offlineInstances) \<Rightarrow>
           getCreateAndDeletePodSet c opsRes lastCompSnapshot
             (compSpec\<lparr>CS_Replicas := replicas, CS_Instances := instances,
                       CS_OfflineInstances := offlineInstances\<rparr>)
             hScaling (ComponentName hScaling)))"

definition checkIntersectionWithEarlierOps ::
  "collab \<Rightarrow> OpsResource \<Rightarrow> OpsRequest \<Rightarrow> HorizontalScaling \<Rightarrow> HorizontalScaling \<Rightarrow> error + unit" where
  "checkIntersectionWithEarlierOps c opsRes earlierOps currOpsHScaling earlierOpsHScaling =
     (case getCreatedOrDeletedPodSet c opsRes earlierOpsHScaling earlierOps earlierOpsHScaling of
        Inl e \<Rightarrow> Inl e
      | Inr (createdPodSetForEarlier, _) \<Rightarrow>
      (case getCreatedOrDeletedPodSet c opsRes earlierOpsHScaling (OpsRequest opsRes) currOpsHScaling of
         Inl e \<Rightarrow> Inl e
       | Inr (_, deletedPodSetForCurrent) \<Rightarrow>
           if \<exists>deletedPod \<in> podNames deletedPodSetForCurrent. deletedPod \<in> podNames createdPodSetForEarlier
           then Inl (FatalError (InstanceCreatedByAnotherOps (OR_Name earlierOps)))
           else Inr ()))"

text \<open>
  The function that \<open>Action\<close> hands to \<open>abortEarlierOpsRequestWithSameKind\<close>: whether
  the earlier request has to be aborted, or an error. \<open>componentOpsSet\<close> indexes the
  entries of the current request by component name.
\<close>

fun abortConditionLoop ::
  "collab \<Rightarrow> OpsResource \<Rightarrow> (string \<rightharpoonup> HorizontalScaling) \<Rightarrow> OpsRequest \<Rightarrow> HorizontalScaling list
     \<Rightarrow> error + bool" where
  "abortConditionLoop c opsRes componentOpsSet earlierOps [] = Inr False"
| "abortConditionLoop c opsRes componentOpsSet earlierOps (v # vs) =
     (case componentOpsSet (ComponentName v) of
        None \<Rightarrow> Inr False
      | Some currHorizontalScaling \<Rightarrow>
          if HS_Replicas currHorizontalScaling \<noteq> None \<or> HS_Replicas v \<noteq> None then Inr True
          else if OR_Phase earlierOps = OpsPendingPhase then Inr False
          else (case checkIntersectionWithEarlierOps c opsRes earlierOps currHorizontalScaling v of
                  Inl e \<Rightarrow> Inl e
                | Inr _ \<Rightarrow> abortConditionLoop c opsRes componentOpsSet earlierOps vs))"

definition Action_abortCondition ::
  "collab \<Rightarrow> OpsResource \<Rightarrow> (string \<rightharpoonup> HorizontalScaling) \<Rightarrow> OpsRequest \<Rightarrow> error + bool" where
  "Action_abortCondition c opsRes componentOpsSet earlierOps =
     (if OR_Type earlierOps \<in> {StartType, StopType} then Inr True
      else abortConditionLoop c opsRes componentOpsSet earlierOps (OR_HorizontalScalingList earlierOps))"

section \<open>Object generation (internal/controller/rsm/transformer\_object\_generation.go)\<close>

subsection \<open>Objects\<close>

text \<open>
  A Go \<open>map[string]string\<close> that may be nil. The fields of an object that
  \<open>copyAndMerge\<close> and \<open>Transform\<close> never read are kept as one opaque value each
  (\<open>Meta_Other\<close>, \<open>T_Other\<close>, \<open>Spec_Other\<close>, the status and the body of an object of
  another kind).
\<close>

type_synonym metaMap = "(string \<rightharpoonup> string) option"

record ObjectMeta =
  Namespace :: string
  Name :: string
  Labels :: metaMap
  Annotations :: metaMap
  Meta_Other :: string

record PodTemplateSpec =
  T_Annotations :: metaMap
  T_Other :: string

record StatefulSetSpec =
  Template :: PodTemplateSpec
  Replicas :: "int32 option"
  UpdateStrategy :: string
  Spec_Other :: string

record StatefulSet = ObjectMeta +
  STS_Spec :: StatefulSetSpec
  STS_Status :: string

record Service = ObjectMeta +
  SVC_Spec :: string
  SVC_Status :: string

record ConfigMap = ObjectMeta +
  Data :: metaMap
  BinaryData :: metaMap
  Immutable :: "bool option"

record OtherObject = ObjectMeta +
  GoType :: string
  Body :: string

datatype Object =
    StatefulSetObj StatefulSet
  | ServiceObj Service
  | ConfigMapObj ConfigMap
  | OtherObj OtherObject

datatype ObjectType = TStatefulSet | TService | TConfigMap | TOther string

text \<open>\<open>reflect.TypeOf\<close> on an object: its concrete Go type.\<close>

fun TypeOf :: "Object \<Rightarrow> ObjectType" where
  "TypeOf (StatefulSetObj _) = TStatefulSet"
| "TypeOf (ServiceObj _) = TService"
| "TypeOf (ConfigMapObj _) = TConfigMap"
| "TypeOf (OtherObj x) = TOther (GoType x)"

fun objLabels :: "Object \<Rightarrow> metaMap" where
  "objLabels (StatefulSetObj x) = Labels x"
| "objLabels (ServiceObj x) = Labels x"
| "objLabels (ConfigMapObj x) = Labels x"
| "objLabels (OtherObj x) = Labels x"

fun objAnnotations :: "Object \<Rightarrow> metaMap" where
  "objAnnotations (StatefulSetObj x) = Annotations x"
| "objAnnotations (ServiceObj x) = Annotations x"
| "objAnnotations (ConfigMapObj x) = Annotations x"
| "objAnnotations (OtherObj x) = Annotations x"

fun objNamespace :: "Object \<Rightarrow> string" where
  "objNamespace (StatefulSetObj x) = Namespace x"
| "objNamespace (ServiceObj x) = Namespace x"
| "objNamespace (ConfigMapObj x) = Namespace x"
| "objNamespace (OtherObj x) = Namespace x"

fun objName :: "Object \<Rightarrow> string" where
  "objName (StatefulSetObj x) = Name x"
| "objName (ServiceObj x) = Name x"
| "objName (ConfigMapObj x) = Name x"
| "objName (OtherObj x) = Name x"

fun objMetaOther :: "Object \<Rightarrow> string" where
  "objMetaOther (StatefulSetObj x) = Meta_Other x"
| "objMetaOther (ServiceObj x) = Meta_Other x"
| "objMetaOther (ConfigMapObj x) = Meta_Other x"
| "objMetaOther (OtherObj x) = Meta_Other x"

text \<open>Reading a key of a map that may be nil: a nil map has no keys.\<close>

definition lookupKey :: "metaMap \<Rightarrow> string \<rightharpoonup> string" where
  "lookupKey m k = (case m of None \<Rightarrow> None | Some f \<Rightarrow> f k)"

subsection \<open>copyAndMerge\<close>

text \<open>
  \<open>mergeMetadataMap originalMap targetMap\<close> writes through the pointer \<open>targetMap\<close>;
  the model returns the map the pointer refers to afterwards. Both call sites pass the
  address of a field, so the pointer itself is never nil. A nil original map leaves the
  target as it is; otherwise a nil target becomes an empty map first, and every key of the
  original that the target lacks is copied.
\<close>

definition mergeMetadataMap :: "metaMap \<Rightarrow> metaMap \<Rightarrow> metaMap" where
  "mergeMetadataMap originalMap targetMap =
     (case originalMap of
        None \<Rightarrow> targetMap
      | Some original \<Rightarrow>
          Some (\<lambda>k. case (case targetMap of None \<Rightarrow> Map.empty | Some t \<Rightarrow> t) k of
                      Some v \<Rightarrow> Some v
                    | None \<Rightarrow> original k))"

text \<open>
  The three closures take the copy of the old object and the new object, both by pointer.
  They write into both: the model returns the pair of the objects afterwards, the merged
  copy first, the new object second.
\<close>

definition copyAndMergeSts :: "StatefulSet \<Rightarrow> StatefulSet \<Rightarrow> StatefulSet \<times> StatefulSet" where
  "copyAndMergeSts oldSts newSts =
     (let newSts1 = newSts\<lparr>Labels := mergeMetadataMap (Labels oldSts) (Labels newSts)\<rparr>;
          oldSts1 = oldSts\<lparr>Labels := Labels newSts1\<rparr>;
          newSts2 = newSts1\<lparr>STS_Spec := (STS_Spec newSts1)\<lparr>Template := (Template (STS_Spec newSts1))
                      \<lparr>T_Annotations := mergeMetadataMap (T_Annotations (Template (STS_Spec oldSts1)))
                                          (T_Annotations (Template (STS_Spec newSts1)))\<rparr>\<rparr>\<rparr>;
          oldSts2 = oldSts1\<lparr>STS_Spec := (STS_Spec oldSts1)
                      \<lparr>Template := Template (STS_Spec newSts2),
                       Replicas := Replicas (STS_Spec newSts2),
                       UpdateStrategy := UpdateStrategy (STS_Spec newSts2)\<rparr>\<rparr>
      in (oldSts2, newSts2))"

definition copyAndMergeSvc :: "Service \<Rightarrow> Service \<Rightarrow> Service \<times> Service" where
  "copyAndMergeSvc oldSvc newSvc =
     (let newSvc1 = newSvc\<lparr>Annotations := mergeMetadataMap (Annotations oldSvc) (Annotations newSvc)\<rparr>;
          oldSvc1 = oldSvc\<lparr>Annotations := Annotations newSvc1, SVC_Spec := SVC_Spec newSvc1\<rparr>
      in (oldSvc1, newSvc1))"

definition copyAndMergeCm :: "ConfigMap \<Rightarrow> ConfigMap \<Rightarrow> ConfigMap \<times> ConfigMap" where
  "copyAndMergeCm oldCm newCm = (oldCm\<lparr>Data := Data newCm, BinaryData := BinaryData newCm\<rparr>, newCm)"

text \<open>
  \<open>DeepCopyObject\<close> (generated by the Kubernetes API machinery) returns an equal object
  that shares no memory with its argument: on values, the same value.
\<close>

definition DeepCopyObject :: "Object \<Rightarrow> Object" where
  "DeepCopyObject obj = obj"

text \<open>
  \<open>copyAndMerge oldObj newObj\<close> takes two pointers. The model returns the object the
  function returns (\<open>None\<close> for nil), then the object behind \<open>oldObj\<close> and the object
  behind \<open>newObj\<close> as the call leaves them. The type assertions on the copy cannot fail,
  the types being equal; the model leaves the copy as it is there.
\<close>

definition copyAndMerge :: "Object \<Rightarrow> Object \<Rightarrow> Object option \<times> Object \<times> Object" where
  "copyAndMerge oldObj newObj =
     (if TypeOf oldObj \<noteq> TypeOf newObj then (None, oldObj, newObj)
      else
        (let targetObj = DeepCopyObject oldObj in
         case newObj of
           StatefulSetObj o' \<Rightarrow>
             (case targetObj of
                StatefulSetObj t \<Rightarrow>
                  (case copyAndMergeSts t o' of
                     (merged, o'') \<Rightarrow> (Some (StatefulSetObj merged), oldObj, StatefulSetObj o''))
              | _ \<Rightarrow> (Some targetObj, oldObj, newObj))
         | ServiceObj o' \<Rightarrow>
             (case targetObj of
                ServiceObj t \<Rightarrow>
                  (case copyAndMergeSvc t o' of
                     (merged, o'') \<Rightarrow> (Some (ServiceObj merged), oldObj, ServiceObj o''))
              | _ \<Rightarrow> (Some targetObj, oldObj, newObj))
         | ConfigMapObj o' \<Rightarrow>
             (case targetObj of
                ConfigMapObj t \<Rightarrow>
                  (case copyAndMergeCm t o' of
                     (merged, o'') \<Rightarrow> (Some (ConfigMapObj merged), oldObj, ConfigMapObj o''))
              | _ \<Rightarrow> (Some targetObj, oldObj, newObj))
         | OtherObj _ \<Rightarrow> (Some newObj, oldObj, newObj)))"

subsection \<open>Transform\<close>

text \<open>
  \<open>model.GVKNObjKey\<close>: kind, namespace and name. The calls \<open>Transform\<close> makes on the
  graph client are its result; an object argument may be a nil interface.
\<close>

type_synonym GVKNObjKey = "string \<times> string \<times> string"

type_synonym snapshot = "(GVKNObjKey \<times> Object) list"

datatype call =
    Create "Object option"
  | Update "Object option" "Object option"
  | Delete "Object option"
  | DependOn Object "Object option list"

text \<open>
  What \<open>Transform\<close> takes from elsewhere is a parameter of the model: the objects that
  the builders generate from the current spec (\<open>svc\<close> may be nil, the debug pod is there
  in debug mode; the objects are taken in the state \<open>setOwnership\<close> leaves them in),
  the error of \<open>setOwnership\<close> on an object, the snapshot that
  \<open>model.ReadCacheSnapshot\<close> reads, \<open>model.GetGVKName\<close>, and the feature gate
  \<open>FeatureGateRSMCompatibilityMode\<close> read through viper.
\<close>

record generated =
  G_svc :: "Object option"
  G_altSvs :: "Object list"
  G_headLessSvc :: Object
  G_envConfig :: Object
  G_sts :: Object
  G_debugPod :: "Object option"

record rsmCollab =
  setOwnership :: "Object \<Rightarrow> string option"
  ReadCacheSnapshot :: "string + snapshot"
  GetGVKName :: "Object \<Rightarrow> string + GVKNObjKey"
  RSMCompatibilityMode :: bool

definition KeySet :: "('k \<times> 'v) list \<Rightarrow> 'k list" where
  "KeySet m = setsNew (map fst m)"

definition Difference :: "'k list \<Rightarrow> 'k list \<Rightarrow> 'k list" where
  "Difference s1 s2 = filter (\<lambda>k. k \<notin> set s2) s1"

definition Intersection :: "'k list \<Rightarrow> 'k list \<Rightarrow> 'k list" where
  "Intersection s1 s2 = filter (\<lambda>k. k \<in> set s2) s1"

text \<open>The create, update and delete sets of \<open>Transform\<close>.\<close>

definition snapshotDiff :: "('k \<times> 'v) list \<Rightarrow> ('k \<times> 'v) list \<Rightarrow> 'k list \<times> 'k list \<times> 'k list" where
  "snapshotDiff oldSnapshot newSnapshot =
     (let oldNameSet = KeySet oldSnapshot;
          newNameSet = KeySet newSnapshot;
          createSet = Difference newNameSet oldNameSet;
          updateSet = Intersection newNameSet oldNameSet;
          deleteSet = Difference oldNameSet newNameSet
      in (createSet, updateSet, deleteSet))"

fun firstError :: "('a \<Rightarrow> string option) \<Rightarrow> 'a list \<Rightarrow> string option" where
  "firstError f [] = None"
| "firstError f (x # xs) = (case f x of Some e \<Rightarrow> Some e | None \<Rightarrow> firstError f xs)"

fun buildNewSnapshot :: "rsmCollab \<Rightarrow> Object list \<Rightarrow> snapshot \<Rightarrow> error + snapshot" where
  "buildNewSnapshot r [] newSnapshot = Inr newSnapshot"
| "buildNewSnapshot r (object # objects) newSnapshot =
     (case GetGVKName r object of
        Inl msg \<Rightarrow> Inl (CollaboratorError msg)
      | Inr name \<Rightarrow> buildNewSnapshot r objects (AList.update name object newSnapshot))"

definition isConfigMap :: "Object option \<Rightarrow> bool" where
  "isConfigMap obj = (case obj of Some (ConfigMapObj _) \<Rightarrow> True | _ \<Rightarrow> False)"

definition createNewObjects :: "snapshot \<Rightarrow> GVKNObjKey list \<Rightarrow> call list" where
  "createNewObjects newSnapshot createSet = map (\<lambda>name. Create (map_of newSnapshot name)) createSet"

definition updateObjects :: "snapshot \<Rightarrow> snapshot \<Rightarrow> GVKNObjKey list \<Rightarrow> call list" where
  "updateObjects oldSnapshot newSnapshot updateSet =
     concat (map (\<lambda>name.
        case (map_of oldSnapshot name, map_of newSnapshot name) of
          (Some oldObj, Some newObj) \<Rightarrow> [Update (Some oldObj) (fst (copyAndMerge oldObj newObj))]
        | _ \<Rightarrow> []) updateSet)"

definition deleteOrphanObjects :: "rsmCollab \<Rightarrow> snapshot \<Rightarrow> GVKNObjKey list \<Rightarrow> call list" where
  "deleteOrphanObjects r oldSnapshot deleteSet =
     concat (map (\<lambda>name.
        if RSMCompatibilityMode r \<and> isConfigMap (map_of oldSnapshot name) then []
        else [Delete (map_of oldSnapshot name)]) deleteSet)"

text \<open>The list \<open>objects\<close> of \<open>Transform\<close>, in the order it is built.\<close>

definition generatedObjects :: "generated \<Rightarrow> Object list" where
  "generatedObjects g =
     [G_headLessSvc g, G_envConfig g, G_sts g]
     @ (case G_debugPod g of Some debugPod \<Rightarrow> [debugPod] | None \<Rightarrow> [])
     @ (case G_svc g of Some svc \<Rightarrow> [svc] | None \<Rightarrow> [])
     @ G_altSvs g"

text \<open>
  \<open>Transform\<close>: nothing when the object is being deleted; otherwise the objects to
  create, to update (merged by \<open>copyAndMerge\<close>; every name of the update set is a key of
  both snapshots, and the model makes no call for a name that is not) and to delete, and
  the dependencies of the workload.
\<close>

definition Transform :: "rsmCollab \<Rightarrow> bool \<Rightarrow> generated \<Rightarrow> error + call list" where
  "Transform r isObjectDeleting g =
     (if isObjectDeleting then Inr []
      else
        (let objects = generatedObjects g in
         case firstError (setOwnership r) objects of
           Some msg \<Rightarrow> Inl (CollaboratorError msg)
         | None \<Rightarrow>
         (case ReadCacheSnapshot r of
            Inl msg \<Rightarrow> Inl (CollaboratorError msg)
          | Inr oldSnapshot \<Rightarrow>
          (case buildNewSnapshot r objects [] of
             Inl e \<Rightarrow> Inl e
           | Inr newSnapshot \<Rightarrow>
               (case snapshotDiff oldSnapshot newSnapshot of
                  (createSet, updateSet, deleteSet) \<Rightarrow>
                    Inr (createNewObjects newSnapshot createSet
                         @ updateObjects oldSnapshot newSnapshot updateSet
                         @ deleteOrphanObjects r oldSnapshot deleteSet
                         @ [DependOn (G_sts g) [G_svc g, Some (G_headLessSvc g), Some (G_envConfig g)]]))))))"

section \<open>Example inputs\<close>

text \<open>
  Modelled from the spec: the collaborators are not part of the sources, so the concrete
  inputs below need an instance of them. This one follows the instance-name derivation
  contract of the spec (a pure, deterministic function of the replica count, the templates,
  the offline instances, the cluster name and the component name): the instances are named
  \<open>cluster-component-ordinal\<close> with the lowest ordinals that are not offline, all of
  them belong to the default template (the empty name), members of a set are listed in
  insertion order, and the strict policy is the annotation value \<open>Strict\<close>. It is used
  only to evaluate the model at concrete inputs; every general theorem holds for all
  collaborators.
\<close>

function decimal :: "nat \<Rightarrow> string" where
  "decimal n = (if n < 10 then [''0123456789'' ! n]
                else decimal (n div 10) @ [''0123456789'' ! (n mod 10)])"
  by pat_completeness auto
termination
  by (relation "measure id") auto

definition exampleCollab :: collab where
  "exampleCollab =
     \<lparr>GenerateAllPodNamesToSet = (\<lambda>replicas tpls offline cluster comp.
          Inr (map (\<lambda>n. (n, []))
                 (take (unat replicas)
                    (filter (\<lambda>n. n \<notin> set offline)
                       (map (\<lambda>i. cluster @ ''-'' @ comp @ ''-'' @ decimal i)
                          [0..<unat replicas + length offline]))))),
      GetInstanceTemplateName = (\<lambda>cluster comp name. []),
      CountOfflineOrOnlineInstances = (\<lambda>cluster comp names.
          if names = [] then [] else [([], word_of_nat (length names))]),
      UnsortedList = (\<lambda>xs. xs),
      getMissingElementsInSetFromList = (\<lambda>s l. filter (\<lambda>v. v \<notin> set s) l),
      getComponentSpecOrShardingTemplate = (\<lambda>cl n. find (\<lambda>s. CS_Name s = n) (CL_ComponentSpecs cl)),
      defaultInstanceTemplateReplicas = 1,
      HscaleValidatePolicyKey = ''apps.kubeblocks.io/hscale-validate-policy'',
      HscaleValidatePolicyStrict = ''Strict''\<rparr>"

definition exSpec :: ClusterComponentSpec where
  "exSpec = \<lparr>CS_Name = ''x'', CS_Replicas = 3, CS_Instances = [], CS_OfflineInstances = [],
     CS_Other = ''serviceVersion 8.0''\<rparr>"

definition exScaleOut :: "int32 option \<Rightarrow> InstanceTemplate list \<Rightarrow> string list \<Rightarrow> ScaleOut" where
  "exScaleOut rc new names =
     \<lparr>ReplicaChanges = rc, Instances = [], NewInstances = new, OfflineInstancesToOnline = names\<rparr>"

definition exScaleIn :: "int32 option \<Rightarrow> string list \<Rightarrow> ScaleIn" where
  "exScaleIn rc names = \<lparr>ReplicaChanges = rc, Instances = [], OnlineInstancesToOffline = names\<rparr>"

definition exRequest :: "int32 option \<Rightarrow> ScaleOut option \<Rightarrow> ScaleIn option \<Rightarrow> HorizontalScaling" where
  "exRequest r scaleOut scaleIn =
     \<lparr>ComponentName = ''x'', HS_Replicas = r, HS_ScaleOut = scaleOut, HS_ScaleIn = scaleIn\<rparr>"

definition exOpsRequest :: "string \<Rightarrow> (string \<rightharpoonup> string) \<Rightarrow> OpsPhase \<Rightarrow> HorizontalScaling
    \<Rightarrow> ClusterComponentSpec \<Rightarrow> OpsRequest" where
  "exOpsRequest name annotations phase hs lastSpec =
     \<lparr>OR_Name = name, OR_Annotations = annotations, OR_Type = HorizontalScalingType,
      OR_HorizontalScalingList = [hs], OR_Phase = phase,
      OR_LastConfiguration = [''x'' \<mapsto> getLastComponentInfo lastSpec hs]\<rparr>"

definition exOpsRes :: "OpsRequest \<Rightarrow> ClusterComponentSpec \<Rightarrow> OpsResource" where
  "exOpsRes ops spec = \<lparr>OpsRequest = ops, Cluster = \<lparr>CL_Name = ''c'', CL_ComponentSpecs = [spec]\<rparr>\<rparr>"

definition exTemplate :: "string \<Rightarrow> int32 \<Rightarrow> InstanceTemplate" where
  "exTemplate name r = \<lparr>IT_Name = name, IT_Replicas = Some r, IT_Other = ''''\<rparr>"

definition exTooMany :: HorizontalScaling where
  "exTooMany = exRequest None (Some (exScaleOut (Some 1) [exTemplate ''t'' 5] [])) None"

definition exOneMore :: HorizontalScaling where
  "exOneMore = exRequest None (Some (exScaleOut None [exTemplate ''t'' 1] [])) None"

definition exBothLists :: HorizontalScaling where
  "exBothLists = exRequest None (Some (exScaleOut None [] [''c-x-1''])) (Some (exScaleIn None [''c-x-1'']))"


definition exSpecOffline :: ClusterComponentSpec where
  "exSpecOffline = \<lparr>CS_Name = ''x'', CS_Replicas = 3, CS_Instances = [], CS_OfflineInstances = [''c-x-1''],
     CS_Other = ''serviceVersion 8.0''\<rparr>"

definition exSwap :: HorizontalScaling where
  "exSwap = exRequest None (Some (exScaleOut None [] [''c-x-1''])) (Some (exScaleIn None [''c-x-0'']))"

definition exIgnorePolicy :: "string \<rightharpoonup> string" where
  "exIgnorePolicy = [''apps.kubeblocks.io/hscale-validate-policy'' \<mapsto> ''Ignore'']"

definition exGhost :: HorizontalScaling where
  "exGhost = exRequest None None (Some (exScaleIn None [''c-x-9'']))"

definition exAbsolute :: HorizontalScaling where
  "exAbsolute = exRequest (Some 5) None None"

definition exAbsoluteBothLists :: HorizontalScaling where
  "exAbsoluteBothLists =
     exRequest (Some 3) (Some (exScaleOut None [] [''c-x-1''])) (Some (exScaleIn None [''c-x-1'']))"

definition exAbsoluteAndOffline :: HorizontalScaling where
  "exAbsoluteAndOffline = exRequest (Some 5) None (Some (exScaleIn None [''c-x-1'']))"

definition exTwoOutOneIn :: HorizontalScaling where
  "exTwoOutOneIn = exRequest None (Some (exScaleOut (Some 2) [] [])) (Some (exScaleIn (Some 1) []))"

definition exSpecFour :: ClusterComponentSpec where
  "exSpecFour = \<lparr>CS_Name = ''x'', CS_Replicas = 4, CS_Instances = [], CS_OfflineInstances = [],
     CS_Other = ''serviceVersion 8.0''\<rparr>"

definition exPlusOne :: HorizontalScaling where
  "exPlusOne = exRequest None (Some (exScaleOut (Some 1) [] [])) None"

definition exTakeThreeOffline :: HorizontalScaling where
  "exTakeThreeOffline = exRequest None None (Some (exScaleIn None [''c-x-3'']))"

text \<open>
  Objects for the concrete inputs of object generation, and an instance of its
  collaborators: no ownership error, a fixed observed snapshot, and the key of an object
  made of its kind, namespace and name.
\<close>

definition exMeta :: "string \<Rightarrow> metaMap \<Rightarrow> metaMap \<Rightarrow> ObjectMeta" where
  "exMeta name labels annotations =
     \<lparr>Namespace = ''ns'', Name = name, Labels = labels, Annotations = annotations,
      Meta_Other = ''uid-of-'' @ name\<rparr>"

definition exService :: "string \<Rightarrow> metaMap \<Rightarrow> metaMap \<Rightarrow> string \<Rightarrow> Object" where
  "exService name labels annotations spec =
     ServiceObj (ObjectMeta.extend (exMeta name labels annotations)
                   (Service.fields spec ''load balancer ready''))"

definition exConfigMap :: "string \<Rightarrow> metaMap \<Rightarrow> metaMap \<Rightarrow> Object" where
  "exConfigMap name labels data =
     ConfigMapObj (ObjectMeta.extend (exMeta name labels None)
                     (ConfigMap.fields data None None))"

definition exStatefulSet :: "string \<Rightarrow> metaMap \<Rightarrow> metaMap \<Rightarrow> int32 \<Rightarrow> string \<Rightarrow> Object" where
  "exStatefulSet name labels templateAnnotations replicas status =
     StatefulSetObj (ObjectMeta.extend (exMeta name labels None)
                       (StatefulSet.fields
                          \<lparr>Template = \<lparr>T_Annotations = templateAnnotations, T_Other = ''containers''\<rparr>,
                           Replicas = Some replicas, UpdateStrategy = ''RollingUpdate'',
                           Spec_Other = ''selector''\<rparr>
                          status))"

definition exPod :: "string \<Rightarrow> metaMap \<Rightarrow> string \<Rightarrow> Object" where
  "exPod name labels body =
     OtherObj (ObjectMeta.extend (exMeta name labels None) (OtherObject.fields ''*v1.Pod'' body))"

definition exGetGVKName :: "Object \<Rightarrow> string + GVKNObjKey" where
  "exGetGVKName obj =
     Inr (case TypeOf obj of
            TStatefulSet \<Rightarrow> ''StatefulSet'' | TService \<Rightarrow> ''Service''
          | TConfigMap \<Rightarrow> ''ConfigMap'' | TOther t \<Rightarrow> t,
          objNamespace obj, objName obj)"

definition exOldSnapshot :: snapshot where
  "exOldSnapshot =
     [((''Service'', ''ns'', ''x-headless''), exService ''x-headless'' None None ''old ports''),
      ((''ConfigMap'', ''ns'', ''x-legacy''), exConfigMap ''x-legacy'' None None),
      ((''ConfigMap'', ''ns'', ''x-env''), exConfigMap ''x-env'' None None),
      ((''Service'', ''ns'', ''x-old''), exService ''x-old'' None None ''old ports'')]"

definition exGenerated :: generated where
  "exGenerated =
     \<lparr>G_svc = None, G_altSvs = [],
      G_headLessSvc = exService ''x-headless'' None None ''new ports'',
      G_envConfig = exConfigMap ''x-env'' None None,
      G_sts = exStatefulSet ''x'' None None 3 '''',
      G_debugPod = None\<rparr>"

definition exNewSnapshot :: snapshot where
  "exNewSnapshot =
     [((''Service'', ''ns'', ''x-headless''), exService ''x-headless'' None None ''new ports''),
      ((''ConfigMap'', ''ns'', ''x-env''), exConfigMap ''x-env'' None None),
      ((''StatefulSet'', ''ns'', ''x''), exStatefulSet ''x'' None None 3 '''')]"

definition exRsmCollab :: "bool \<Rightarrow> rsmCollab" where
  "exRsmCollab compatibilityMode =
     \<lparr>setOwnership = (\<lambda>obj. None), ReadCacheSnapshot = Inr exOldSnapshot,
      GetGVKName = exGetGVKName, RSMCompatibilityMode = compatibilityMode\<rparr>"

definition exOldService :: Object where
  "exOldService =
     exService ''svc'' (Some [''app'' \<mapsto> ''v1'']) (Some [''a'' \<mapsto> ''1'', ''b'' \<mapsto> ''2'']) ''old ports''"

definition exNewService :: Object where
  "exNewService = exService ''svc'' (Some [''app'' \<mapsto> ''v2'']) (Some [''a'' \<mapsto> ''9'']) ''new ports''"

definition exOldPod :: Object where
  "exOldPod = exPod ''debug'' (Some [''keep'' \<mapsto> ''1'']) ''old containers''"

definition exNewPod :: Object where
  "exNewPod = exPod ''debug'' None ''new containers''"

section \<open>Properties of horizontal scaling\<close>

subsection \<open>Auxiliary facts\<close>

lemma set_foldl_setsInsert: "set (foldl setsInsert s xs) = set s \<union> set xs"
  by (induction xs arbitrary: s) (auto simp: setsInsert_def)

lemma distinct_foldl_setsInsert: "distinct s \<Longrightarrow> distinct (foldl setsInsert s xs)"
  by (induction xs arbitrary: s) (auto simp: setsInsert_def)

lemma set_setsNew: "set (setsNew xs) = set xs"
  by (simp add: setsNew_def set_foldl_setsInsert)

lemma podNames_update: "podNames (AList.update k v m) = insert k (podNames m)"
  by (simp add: podNames_def dom_update)

lemma podNames_minus_foldl:
  "podNames (foldl (\<lambda>m k. if k \<notin> B then AList.update k (t k) m else m) m0 ks)
     = podNames m0 \<union> (set ks - B)"
  by (induction ks arbitrary: m0) (auto simp: podNames_update)

lemma podNames_podSetMinus: "podNames (podSetMinus t a b) = podNames a - podNames b"
  unfolding podSetMinus_def podNames_minus_foldl by (auto simp: podNames_def)

lemma podNames_assignAll: "podNames (assignAll t names m) = podNames m \<union> set names"
  unfolding assignAll_def by (induction names arbitrary: m) (auto simp: podNames_update)

lemma foldl_add_sum_list:
  "foldl (\<lambda>a v. a + f v) (z::int32) xs = z + sum_list (map f xs)"
  by (induction xs arbitrary: z) (simp_all add: add.assoc)

lemma sint_sum_list_no_overflow:
  fixes ws :: "int32 list"
  assumes "\<forall>w \<in> set ws. 0 \<le> sint w" and "sum_list (map sint ws) < 2 ^ 31"
  shows "sint (sum_list ws) = sum_list (map sint ws)"
  using assms
proof (induction ws)
  case Nil
  then show ?case by simp
next
  case (Cons w ws)
  have nonneg: "0 \<le> sum_list (map sint ws)"
    using Cons.prems(1) by (intro sum_list_nonneg) auto
  have "sum_list (map sint ws) < 2 ^ 31"
    using Cons.prems by simp
  with Cons have ih: "sint (sum_list ws) = sum_list (map sint ws)" by simp
  have "sint (w + sum_list ws) = signed_take_bit 31 (sint w + sint (sum_list ws))"
    by (simp add: sint_word_ariths)
  also have "\<dots> = sint w + sum_list (map sint ws)"
    using Cons.prems nonneg unfolding ih
    by (intro signed_take_bit_int_eq_self) auto
  finally show ?case by simp
qed

lemma filterHorizontalScalingSpec_cluster_name:
  "CL_Name (Cluster opsRes') = CL_Name (Cluster opsRes)
   \<Longrightarrow> filterHorizontalScalingSpec c opsRes' r i off hs = filterHorizontalScalingSpec c opsRes r i off hs"
  by (simp add: filterHorizontalScalingSpec_def)

lemma autoSyncReplicaChanges_cluster_name:
  "CL_Name (Cluster opsRes') = CL_Name (Cluster opsRes)
   \<Longrightarrow> autoSyncReplicaChanges c opsRes' hs r i off = autoSyncReplicaChanges c opsRes hs r i off"
  by (simp add: autoSyncReplicaChanges_def)

lemma getExpectedCompValues_cluster_name:
  assumes "CL_Name (Cluster opsRes') = CL_Name (Cluster opsRes)"
  shows "getExpectedCompValues c opsRes' compSpec lastCfg hs = getExpectedCompValues c opsRes compSpec lastCfg hs"
  unfolding getExpectedCompValues_def
    filterHorizontalScalingSpec_cluster_name [OF assms] autoSyncReplicaChanges_cluster_name [OF assms]
  by (rule refl)

lemma getExpectedCompValues_delta_spec:
  "HS_Replicas hs = None
   \<Longrightarrow> getExpectedCompValues c opsRes compSpec' lastCfg hs = getExpectedCompValues c opsRes compSpec lastCfg hs"
  by (simp add: getExpectedCompValues_def)

lemma Action_updateComp_fields:
  "Action_updateComp c opsRes compSpec hs = Inr compSpec'
   \<Longrightarrow> \<exists>r i off. compSpec' = compSpec\<lparr>CS_Replicas := r, CS_Instances := i, CS_OfflineInstances := off\<rparr>"
  by (fastforce simp: Action_updateComp_def Let_def split: sum.splits if_splits)

lemma getCreateAndDeletePodSet_phase:
  assumes "p \<noteq> OpsCancellingPhase"
  shows "getCreateAndDeletePodSet c (opsRes\<lparr>OpsRequest := (OpsRequest opsRes)\<lparr>OR_Phase := OpsCancellingPhase\<rparr>\<rparr>)
            lastCfg cur hs n
         = map_sum id prod.swap
             (getCreateAndDeletePodSet c (opsRes\<lparr>OpsRequest := (OpsRequest opsRes)\<lparr>OR_Phase := p\<rparr>\<rparr>)
                lastCfg cur hs n)"
proof -
  have e: "getExpectedCompValues c (opsRes\<lparr>OpsRequest := (OpsRequest opsRes)\<lparr>OR_Phase := q\<rparr>\<rparr>) cur lastCfg hs
         = getExpectedCompValues c opsRes cur lastCfg hs" for q
    by (rule getExpectedCompValues_cluster_name) simp
  show ?thesis
    unfolding getCreateAndDeletePodSet_def e
    using assms
    by (simp add: Let_def split: option.splits sum.splits prod.splits)
qed

lemma getCreateAndDeletePodSet_delta_spec:
  assumes "HS_Replicas hs = None"
  shows "getCreateAndDeletePodSet c opsRes lastCfg cur' hs n = getCreateAndDeletePodSet c opsRes lastCfg cur hs n"
  unfolding getCreateAndDeletePodSet_def
    getExpectedCompValues_delta_spec [OF assms, of c opsRes cur' lastCfg cur]
  by (rule refl)

lemma getExpectedCompValues_absolute:
  assumes "HS_Replicas hs = Some n"
    and "\<forall>scaleIn. HS_ScaleIn hs = Some scaleIn \<longrightarrow> OnlineInstancesToOffline scaleIn = []"
    and "\<forall>scaleOut. HS_ScaleOut hs = Some scaleOut \<longrightarrow> OfflineInstancesToOnline scaleOut = []"
  shows "getExpectedCompValues c opsRes compSpec lastCfg hs =
           (case GenerateAllPodNamesToSet c (CS_Replicas compSpec) (CS_Instances compSpec)
                   (CS_OfflineInstances compSpec) (CL_Name (Cluster opsRes)) (ComponentName hs) of
              Inl msg \<Rightarrow> Inl (CollaboratorError msg)
            | Inr _ \<Rightarrow> Inr (n, CS_Instances compSpec, CS_OfflineInstances compSpec))"
  using assms
  by (auto simp: getExpectedCompValues_def filterHorizontalScalingSpec_def autoSyncReplicaChanges_def
        getCompExpectReplicas_def getCompExpectedInstances_def getCompExpectedOfflineInstances_def
        filterScaleIn_def filterScaleOut_def Let_def
      split: sum.splits option.splits prod.splits)

lemma Action_updateComp_Inr:
  assumes "Action_updateComp c opsRes compSpec hs = Inr compSpec'"
  shows "\<exists>r i off.
           getExpectedCompValues c opsRes compSpec
             (lastConfigurationOf (OpsRequest opsRes) (ComponentName hs)) hs = Inr (r, i, off)
         \<and> compSpec' = compSpec\<lparr>CS_Replicas := r, CS_Instances := i, CS_OfflineInstances := off\<rparr>"
  using assms
  by (auto simp: Action_updateComp_def Let_def split: sum.splits if_splits)

lemma getCreateAndDeletePodSet_Inr_expected:
  assumes "getCreateAndDeletePodSet c opsRes lastCfg cur hs n = Inr sets"
  shows "\<exists>x. getExpectedCompValues c opsRes cur lastCfg hs = Inr x"
  using assms
  by (auto simp: getCreateAndDeletePodSet_def Let_def split: option.splits sum.splits)

lemma getCreateAndDeletePodSet_same_expected:
  assumes "getExpectedCompValues c opsRes cur' lastCfg hs = getExpectedCompValues c opsRes cur lastCfg hs"
  shows "getCreateAndDeletePodSet c opsRes lastCfg cur' hs n = getCreateAndDeletePodSet c opsRes lastCfg cur hs n"
  unfolding getCreateAndDeletePodSet_def assms
  by (rule refl)

text \<open>
  In absolute mode, for a request that names no instance, \<open>Action\<close> changes the replicas
  of the spec only, and the expected values read the same from the spec before and after.
\<close>

lemma getExpectedCompValues_absolute_after_Action:
  assumes r: "HS_Replicas hs = Some r"
    and i: "\<forall>scaleIn. HS_ScaleIn hs = Some scaleIn \<longrightarrow> OnlineInstancesToOffline scaleIn = []"
    and out: "\<forall>scaleOut. HS_ScaleOut hs = Some scaleOut \<longrightarrow> OfflineInstancesToOnline scaleOut = []"
    and act: "Action_updateComp c opsRes compSpec hs = Inr compSpec'"
    and n: "CL_Name (Cluster opsRes') = CL_Name (Cluster opsRes)"
    and x: "getExpectedCompValues c opsRes' compSpec' lastCfg hs = Inr x"
  shows "getExpectedCompValues c opsRes' compSpec lastCfg hs = Inr x"
proof -
  from act obtain r' tpls off where
    e: "getExpectedCompValues c opsRes compSpec
          (lastConfigurationOf (OpsRequest opsRes) (ComponentName hs)) hs = Inr (r', tpls, off)"
    and s: "compSpec' = compSpec\<lparr>CS_Replicas := r', CS_Instances := tpls, CS_OfflineInstances := off\<rparr>"
    using Action_updateComp_Inr by blast
  note A = getExpectedCompValues_absolute [OF r i out]
  from e have v: "r' = r \<and> tpls = CS_Instances compSpec \<and> off = CS_OfflineInstances compSpec"
    unfolding A by (auto split: sum.splits)
  have "getExpectedCompValues c opsRes' compSpec lastCfg hs
        = getExpectedCompValues c opsRes compSpec (lastConfigurationOf (OpsRequest opsRes) (ComponentName hs)) hs"
    unfolding A n by (rule refl)
  with e v have 1: "getExpectedCompValues c opsRes' compSpec lastCfg hs
                    = Inr (r, CS_Instances compSpec, CS_OfflineInstances compSpec)"
    by simp
  from x have "x = (r, CS_Instances compSpec, CS_OfflineInstances compSpec)"
    unfolding A s using v by (auto split: sum.splits)
  with 1 show ?thesis
    by simp
qed

subsection \<open>C1: replica conservation in Action\<close>

text \<open>
  Claim C1. Whenever the expected topology has more replicas in its instance templates
  than the component is to have, the function \<open>Action\<close> runs on the component returns
  an error and writes nothing into the spec: the error of the validation when that
  fails first, and otherwise the fatal error about the template replicas. Whenever the
  function accepts, the sum of the template replicas of the spec it returns is at most
  the replicas of that spec. The sum is the \<open>int32\<close> sum the source computes and the
  comparison is signed; where the template replicas are not negative and their sum as
  integers is below \<open>2 ^ 31\<close>, the same holds of the sum as integers.
\<close>

theorem Action_replica_conservation:
  "(\<forall>replicas instances offlineInstances.
       getExpectedCompValues c opsRes compSpec
          (lastConfigurationOf (OpsRequest opsRes) (ComponentName hs)) hs
         = Inr (replicas, instances, offlineInstances)
       \<and> sint replicas < sint (sum_list (map (GetReplicas c) instances))
       \<longrightarrow> Action_updateComp c opsRes compSpec hs =
             (case validateHorizontalScalingWithPolicy c opsRes
                     (lastConfigurationOf (OpsRequest opsRes) (ComponentName hs)) hs of
                Inl e \<Rightarrow> Inl e
              | Inr _ \<Rightarrow> Inl (FatalError (TemplateReplicasExceedComponent (ComponentName hs)))))
   \<and> (\<forall>compSpec'. Action_updateComp c opsRes compSpec hs = Inr compSpec'
       \<longrightarrow> sint (sum_list (map (GetReplicas c) (CS_Instances compSpec'))) \<le> sint (CS_Replicas compSpec')
         \<and> ((\<forall>t \<in> set (CS_Instances compSpec'). 0 \<le> sint (GetReplicas c t))
              \<and> (\<Sum>t\<leftarrow>CS_Instances compSpec'. sint (GetReplicas c t)) < 2 ^ 31
            \<longrightarrow> (\<Sum>t\<leftarrow>CS_Instances compSpec'. sint (GetReplicas c t)) \<le> sint (CS_Replicas compSpec')))"
proof (intro conjI allI impI)
  fix replicas instances offlineInstances
  assume "getExpectedCompValues c opsRes compSpec
          (lastConfigurationOf (OpsRequest opsRes) (ComponentName hs)) hs
         = Inr (replicas, instances, offlineInstances)
       \<and> sint replicas < sint (sum_list (map (GetReplicas c) instances))"
  then show "Action_updateComp c opsRes compSpec hs =
             (case validateHorizontalScalingWithPolicy c opsRes
                     (lastConfigurationOf (OpsRequest opsRes) (ComponentName hs)) hs of
                Inl e \<Rightarrow> Inl e
              | Inr _ \<Rightarrow> Inl (FatalError (TemplateReplicasExceedComponent (ComponentName hs))))"
    by (simp add: Action_updateComp_def Let_def foldl_add_sum_list split: sum.splits)
next
  fix compSpec'
  assume ok: "Action_updateComp c opsRes compSpec hs = Inr compSpec'"
  then show le: "sint (sum_list (map (GetReplicas c) (CS_Instances compSpec'))) \<le> sint (CS_Replicas compSpec')"
    by (auto simp: Action_updateComp_def Let_def foldl_add_sum_list split: sum.splits if_splits)
  assume b: "(\<forall>t \<in> set (CS_Instances compSpec'). 0 \<le> sint (GetReplicas c t))
              \<and> (\<Sum>t\<leftarrow>CS_Instances compSpec'. sint (GetReplicas c t)) < 2 ^ 31"
  have "sint (sum_list (map (GetReplicas c) (CS_Instances compSpec')))
          = sum_list (map sint (map (GetReplicas c) (CS_Instances compSpec')))"
    using b by (intro sint_sum_list_no_overflow) (auto simp: comp_def)
  with le show "(\<Sum>t\<leftarrow>CS_Instances compSpec'. sint (GetReplicas c t)) \<le> sint (CS_Replicas compSpec')"
    by (simp add: comp_def)
qed

theorem Action_replica_conservation_witness:
  "Action_updateComp exampleCollab
      (exOpsRes (exOpsRequest ''ops'' Map.empty OpsCreatingPhase exTooMany exSpec) exSpec) exSpec exTooMany
     = Inl (FatalError (TemplateReplicasExceedComponent ''x''))
   \<and> Action_updateComp exampleCollab
      (exOpsRes (exOpsRequest ''ops'' Map.empty OpsCreatingPhase exOneMore exSpec) exSpec) exSpec exOneMore
     = Inr (exSpec\<lparr>CS_Replicas := 4, CS_Instances := [exTemplate ''t'' 1]\<rparr>)
   \<and> sint (sum_list (map (GetReplicas exampleCollab) [exTemplate ''t'' 1])) \<le> sint (4 :: int32)
   \<and> (\<Sum>t\<leftarrow>[exTemplate ''t'' 1]. sint (GetReplicas exampleCollab t)) \<le> sint (4 :: int32)"
proof -
  let ?R1 = "exOpsRes (exOpsRequest ''ops'' Map.empty OpsCreatingPhase exTooMany exSpec) exSpec"
  let ?R2 = "exOpsRes (exOpsRequest ''ops'' Map.empty OpsCreatingPhase exOneMore exSpec) exSpec"
  let ?S = "exSpec\<lparr>CS_Replicas := 4, CS_Instances := [exTemplate ''t'' 1]\<rparr>"
  have a: "getExpectedCompValues exampleCollab ?R1 exSpec
             (lastConfigurationOf (OpsRequest ?R1) (ComponentName exTooMany)) exTooMany
           = Inr (4, [exTemplate ''t'' 5], [])"
    by code_simp
  have b: "sint (4 :: int32) < sint (sum_list (map (GetReplicas exampleCollab) [exTemplate ''t'' 5]))"
    by code_simp
  have v: "validateHorizontalScalingWithPolicy exampleCollab ?R1
             (lastConfigurationOf (OpsRequest ?R1) (ComponentName exTooMany)) exTooMany = Inr ()"
    by code_simp
  have d: "Action_updateComp exampleCollab ?R2 exSpec exOneMore = Inr ?S"
    by code_simp
  have n: "(\<forall>t \<in> set (CS_Instances ?S). 0 \<le> sint (GetReplicas exampleCollab t))
           \<and> (\<Sum>t\<leftarrow>CS_Instances ?S. sint (GetReplicas exampleCollab t)) < 2 ^ 31"
    by code_simp
  have i: "CS_Instances ?S = [exTemplate ''t'' 1]" "CS_Replicas ?S = 4"
    by simp_all
  from Action_replica_conservation [of exampleCollab ?R1 exSpec exTooMany] a b v
  have 1: "Action_updateComp exampleCollab ?R1 exSpec exTooMany
             = Inl (FatalError (TemplateReplicasExceedComponent ''x''))"
    by (simp add: exTooMany_def exRequest_def)
  from Action_replica_conservation [of exampleCollab ?R2 exSpec exOneMore] d n
  have 2: "sint (sum_list (map (GetReplicas exampleCollab) (CS_Instances ?S))) \<le> sint (CS_Replicas ?S)
           \<and> (\<Sum>t\<leftarrow>CS_Instances ?S. sint (GetReplicas exampleCollab t)) \<le> sint (CS_Replicas ?S)"
    by blast
  from 1 d 2 show ?thesis
    unfolding i by blast
qed

subsection \<open>C2: cancellation restores the last configuration\<close>

text \<open>
  What holds of cancellation. \<open>Cancel\<close> writes the replicas, the instance templates and
  the offline instances of the recorded last configuration back into the component spec,
  whatever the spec holds by then; when the spec was changed by \<open>Action\<close>, the result is
  the spec the last configuration was recorded from, field for field. In the Cancelling
  phase \<open>getCreateAndDeletePodSet\<close> returns the two sets of any other phase swapped with
  each other, on the same component spec, and also on different ones when the request sets
  no absolute replicas (the spec is not read then). When the request sets absolute
  replicas and names no instance, the sets computed in the Cancelling phase on the
  restored spec are the sets computed before on the spec that \<open>Action\<close> wrote, swapped.
\<close>

theorem Cancel_restores_last_configuration:
  "Cancel_updateComp (getLastComponentInfo compSpec hs) compSpec'
     = Inr (compSpec'\<lparr>CS_Replicas := CS_Replicas compSpec, CS_Instances := CS_Instances compSpec,
                      CS_OfflineInstances := CS_OfflineInstances compSpec\<rparr>)
   \<and> (Action_updateComp c opsRes compSpec hs = Inr compSpec'
        \<longrightarrow> Cancel_updateComp (getLastComponentInfo compSpec hs) compSpec' = Inr compSpec)
   \<and> (p \<noteq> OpsCancellingPhase \<and> (HS_Replicas hs = None \<or> cur' = cur)
        \<longrightarrow> getCreateAndDeletePodSet c
              (opsRes\<lparr>OpsRequest := (OpsRequest opsRes)\<lparr>OR_Phase := OpsCancellingPhase\<rparr>\<rparr>) lastCfg cur' hs n
            = map_sum id prod.swap
                (getCreateAndDeletePodSet c
                   (opsRes\<lparr>OpsRequest := (OpsRequest opsRes)\<lparr>OR_Phase := p\<rparr>\<rparr>) lastCfg cur hs n))
   \<and> (\<forall>r created deleted.
         HS_Replicas hs = Some r
         \<and> (\<forall>scaleIn. HS_ScaleIn hs = Some scaleIn \<longrightarrow> OnlineInstancesToOffline scaleIn = [])
         \<and> (\<forall>scaleOut. HS_ScaleOut hs = Some scaleOut \<longrightarrow> OfflineInstancesToOnline scaleOut = [])
         \<and> p \<noteq> OpsCancellingPhase
         \<and> Action_updateComp c opsRes compSpec hs = Inr compSpec'
         \<and> getCreateAndDeletePodSet c
               (opsRes\<lparr>OpsRequest := (OpsRequest opsRes)\<lparr>OR_Phase := p\<rparr>\<rparr>) lastCfg compSpec' hs n
             = Inr (created, deleted)
        \<longrightarrow> getCreateAndDeletePodSet c
              (opsRes\<lparr>OpsRequest := (OpsRequest opsRes)\<lparr>OR_Phase := OpsCancellingPhase\<rparr>\<rparr>) lastCfg compSpec hs n
            = Inr (deleted, created))"
proof (intro conjI impI allI)
  show 1: "Cancel_updateComp (getLastComponentInfo compSpec hs) compSpec'
     = Inr (compSpec'\<lparr>CS_Replicas := CS_Replicas compSpec, CS_Instances := CS_Instances compSpec,
                      CS_OfflineInstances := CS_OfflineInstances compSpec\<rparr>)"
    by (simp add: Cancel_updateComp_def getLastComponentInfo_def)
  assume "Action_updateComp c opsRes compSpec hs = Inr compSpec'"
  then obtain r i off where
    "compSpec' = compSpec\<lparr>CS_Replicas := r, CS_Instances := i, CS_OfflineInstances := off\<rparr>"
    using Action_updateComp_fields by blast
  then show "Cancel_updateComp (getLastComponentInfo compSpec hs) compSpec' = Inr compSpec"
    unfolding 1 by simp
next
  assume a: "p \<noteq> OpsCancellingPhase \<and> (HS_Replicas hs = None \<or> cur' = cur)"
  then have "getCreateAndDeletePodSet c
              (opsRes\<lparr>OpsRequest := (OpsRequest opsRes)\<lparr>OR_Phase := OpsCancellingPhase\<rparr>\<rparr>) lastCfg cur' hs n
           = getCreateAndDeletePodSet c
              (opsRes\<lparr>OpsRequest := (OpsRequest opsRes)\<lparr>OR_Phase := OpsCancellingPhase\<rparr>\<rparr>) lastCfg cur hs n"
    using getCreateAndDeletePodSet_delta_spec by blast
  then show "getCreateAndDeletePodSet c
              (opsRes\<lparr>OpsRequest := (OpsRequest opsRes)\<lparr>OR_Phase := OpsCancellingPhase\<rparr>\<rparr>) lastCfg cur' hs n
            = map_sum id prod.swap
                (getCreateAndDeletePodSet c
                   (opsRes\<lparr>OpsRequest := (OpsRequest opsRes)\<lparr>OR_Phase := p\<rparr>\<rparr>) lastCfg cur hs n)"
    using a getCreateAndDeletePodSet_phase by simp
next
  fix r created deleted
  let ?P = "opsRes\<lparr>OpsRequest := (OpsRequest opsRes)\<lparr>OR_Phase := p\<rparr>\<rparr>"
  let ?C = "opsRes\<lparr>OpsRequest := (OpsRequest opsRes)\<lparr>OR_Phase := OpsCancellingPhase\<rparr>\<rparr>"
  assume a: "HS_Replicas hs = Some r
         \<and> (\<forall>scaleIn. HS_ScaleIn hs = Some scaleIn \<longrightarrow> OnlineInstancesToOffline scaleIn = [])
         \<and> (\<forall>scaleOut. HS_ScaleOut hs = Some scaleOut \<longrightarrow> OfflineInstancesToOnline scaleOut = [])
         \<and> p \<noteq> OpsCancellingPhase
         \<and> Action_updateComp c opsRes compSpec hs = Inr compSpec'
         \<and> getCreateAndDeletePodSet c ?P lastCfg compSpec' hs n = Inr (created, deleted)"
  then obtain x where x: "getExpectedCompValues c ?P compSpec' lastCfg hs = Inr x"
    using getCreateAndDeletePodSet_Inr_expected by blast
  have "CL_Name (Cluster ?P) = CL_Name (Cluster opsRes)"
    by simp
  with a x have "getExpectedCompValues c ?P compSpec lastCfg hs = Inr x"
    using getExpectedCompValues_absolute_after_Action by blast
  with x have "getCreateAndDeletePodSet c ?P lastCfg compSpec hs n
               = getCreateAndDeletePodSet c ?P lastCfg compSpec' hs n"
    by (simp add: getCreateAndDeletePodSet_same_expected)
  with a have "getCreateAndDeletePodSet c ?P lastCfg compSpec hs n = Inr (created, deleted)"
    by simp
  moreover from a have "getCreateAndDeletePodSet c ?C lastCfg compSpec hs n
                        = map_sum id prod.swap (getCreateAndDeletePodSet c ?P lastCfg compSpec hs n)"
    using getCreateAndDeletePodSet_phase by blast
  ultimately show "getCreateAndDeletePodSet c ?C lastCfg compSpec hs n = Inr (deleted, created)"
    by simp
qed

theorem Cancel_restores_last_configuration_witness:
  "Action_updateComp exampleCollab
      (exOpsRes (exOpsRequest ''ops'' Map.empty OpsCreatingPhase exOneMore exSpec) exSpec) exSpec exOneMore
     = Inr (exSpec\<lparr>CS_Replicas := 4, CS_Instances := [exTemplate ''t'' 1]\<rparr>)
   \<and> Cancel_updateComp (getLastComponentInfo exSpec exOneMore)
        (exSpec\<lparr>CS_Replicas := 4, CS_Instances := [exTemplate ''t'' 1]\<rparr>) = Inr exSpec
   \<and> getCreateAndDeletePodSet exampleCollab
        (exOpsRes (exOpsRequest ''ops'' Map.empty OpsRunningPhase exOneMore exSpec) exSpec)
        (getLastComponentInfo exSpec exOneMore)
        (exSpec\<lparr>CS_Replicas := 4, CS_Instances := [exTemplate ''t'' 1]\<rparr>) exOneMore ''x''
      = Inr ([(''c-x-3'', [])], [])
   \<and> getCreateAndDeletePodSet exampleCollab
        (exOpsRes (exOpsRequest ''ops'' Map.empty OpsCancellingPhase exOneMore exSpec) exSpec)
        (getLastComponentInfo exSpec exOneMore) exSpec exOneMore ''x''
      = Inr ([], [(''c-x-3'', [])])
   \<and> Action_updateComp exampleCollab
        (exOpsRes (exOpsRequest ''ops'' Map.empty OpsCreatingPhase exAbsolute exSpec) exSpec) exSpec exAbsolute
      = Inr (exSpec\<lparr>CS_Replicas := 5\<rparr>)
   \<and> getCreateAndDeletePodSet exampleCollab
        (exOpsRes (exOpsRequest ''ops'' Map.empty OpsRunningPhase exAbsolute exSpec) exSpec)
        (getLastComponentInfo exSpec exAbsolute) (exSpec\<lparr>CS_Replicas := 5\<rparr>) exAbsolute ''x''
      = Inr ([(''c-x-3'', []), (''c-x-4'', [])], [])
   \<and> getCreateAndDeletePodSet exampleCollab
        (exOpsRes (exOpsRequest ''ops'' Map.empty OpsCancellingPhase exAbsolute exSpec) exSpec)
        (getLastComponentInfo exSpec exAbsolute) exSpec exAbsolute ''x''
      = Inr ([], [(''c-x-3'', []), (''c-x-4'', [])])"
proof -
  let ?R = "exOpsRes (exOpsRequest ''ops'' Map.empty OpsCreatingPhase exOneMore exSpec) exSpec"
  let ?S = "exSpec\<lparr>CS_Replicas := 4, CS_Instances := [exTemplate ''t'' 1]\<rparr>"
  let ?L = "getLastComponentInfo exSpec exOneMore"
  have a: "Action_updateComp exampleCollab ?R exSpec exOneMore = Inr ?S"
    by code_simp
  have r: "getCreateAndDeletePodSet exampleCollab
             (?R\<lparr>OpsRequest := (OpsRequest ?R)\<lparr>OR_Phase := OpsRunningPhase\<rparr>\<rparr>) ?L ?S exOneMore ''x''
           = Inr ([(''c-x-3'', [])], [])"
    by code_simp
  have h: "HS_Replicas exOneMore = None"
    by code_simp
  have p: "?R\<lparr>OpsRequest := (OpsRequest ?R)\<lparr>OR_Phase := q\<rparr>\<rparr>
           = exOpsRes (exOpsRequest ''ops'' Map.empty q exOneMore exSpec) exSpec" for q
    by (simp add: exOpsRes_def exOpsRequest_def)
  note T = Cancel_restores_last_configuration
    [where c = exampleCollab and opsRes = ?R and compSpec = exSpec and compSpec' = ?S
       and hs = exOneMore and p = OpsRunningPhase and cur = ?S and cur' = exSpec
       and lastCfg = ?L and n = "''x''"]
  from T a have 2: "Cancel_updateComp ?L ?S = Inr exSpec"
    by blast
  from T h r have 3: "getCreateAndDeletePodSet exampleCollab
      (?R\<lparr>OpsRequest := (OpsRequest ?R)\<lparr>OR_Phase := OpsCancellingPhase\<rparr>\<rparr>) ?L exSpec exOneMore ''x''
     = Inr ([], [(''c-x-3'', [])])"
    by simp
  let ?Q = "exOpsRes (exOpsRequest ''ops'' Map.empty OpsCreatingPhase exAbsolute exSpec) exSpec"
  let ?S5 = "exSpec\<lparr>CS_Replicas := 5\<rparr>"
  let ?L5 = "getLastComponentInfo exSpec exAbsolute"
  have a5: "Action_updateComp exampleCollab ?Q exSpec exAbsolute = Inr ?S5"
    by code_simp
  have r5: "getCreateAndDeletePodSet exampleCollab
              (?Q\<lparr>OpsRequest := (OpsRequest ?Q)\<lparr>OR_Phase := OpsRunningPhase\<rparr>\<rparr>) ?L5 ?S5 exAbsolute ''x''
            = Inr ([(''c-x-3'', []), (''c-x-4'', [])], [])"
    by code_simp
  have h5: "HS_Replicas exAbsolute = Some 5
            \<and> (\<forall>scaleIn. HS_ScaleIn exAbsolute = Some scaleIn \<longrightarrow> OnlineInstancesToOffline scaleIn = [])
            \<and> (\<forall>scaleOut. HS_ScaleOut exAbsolute = Some scaleOut \<longrightarrow> OfflineInstancesToOnline scaleOut = [])
            \<and> OpsRunningPhase \<noteq> OpsCancellingPhase"
    by (simp add: exAbsolute_def exRequest_def)
  have p5: "?Q\<lparr>OpsRequest := (OpsRequest ?Q)\<lparr>OR_Phase := q\<rparr>\<rparr>
            = exOpsRes (exOpsRequest ''ops'' Map.empty q exAbsolute exSpec) exSpec" for q
    by (simp add: exOpsRes_def exOpsRequest_def)
  note T5 = Cancel_restores_last_configuration
    [where c = exampleCollab and opsRes = ?Q and compSpec = exSpec and compSpec' = ?S5
       and hs = exAbsolute and p = OpsRunningPhase and lastCfg = ?L5 and n = "''x''"]
  from T5 h5 a5 r5 have 5: "getCreateAndDeletePodSet exampleCollab
      (?Q\<lparr>OpsRequest := (OpsRequest ?Q)\<lparr>OR_Phase := OpsCancellingPhase\<rparr>\<rparr>) ?L5 exSpec exAbsolute ''x''
     = Inr ([], [(''c-x-3'', []), (''c-x-4'', [])])"
    by blast
  from a 2 3 r have first: "Action_updateComp exampleCollab
      (exOpsRes (exOpsRequest ''ops'' Map.empty OpsCreatingPhase exOneMore exSpec) exSpec) exSpec exOneMore
     = Inr ?S
   \<and> Cancel_updateComp ?L ?S = Inr exSpec
   \<and> getCreateAndDeletePodSet exampleCollab
        (exOpsRes (exOpsRequest ''ops'' Map.empty OpsRunningPhase exOneMore exSpec) exSpec) ?L ?S exOneMore ''x''
      = Inr ([(''c-x-3'', [])], [])
   \<and> getCreateAndDeletePodSet exampleCollab
        (exOpsRes (exOpsRequest ''ops'' Map.empty OpsCancellingPhase exOneMore exSpec) exSpec) ?L exSpec exOneMore ''x''
      = Inr ([], [(''c-x-3'', [])])"
    unfolding p by blast
  from a5 r5 5 have second: "Action_updateComp exampleCollab ?Q exSpec exAbsolute = Inr ?S5
   \<and> getCreateAndDeletePodSet exampleCollab
        (exOpsRes (exOpsRequest ''ops'' Map.empty OpsRunningPhase exAbsolute exSpec) exSpec) ?L5 ?S5 exAbsolute ''x''
      = Inr ([(''c-x-3'', []), (''c-x-4'', [])], [])
   \<and> getCreateAndDeletePodSet exampleCollab
        (exOpsRes (exOpsRequest ''ops'' Map.empty OpsCancellingPhase exAbsolute exSpec) exSpec) ?L5 exSpec exAbsolute ''x''
      = Inr ([], [(''c-x-3'', []), (''c-x-4'', [])])"
    unfolding p5 by blast
  from first second show ?thesis
    by (intro conjI) (elim conjE, assumption)+
qed

text \<open>
  Claim C2. The restoring of the spec and the swap hold as shown above, but not the swap
  for a request that sets absolute replicas and names an instance in both lists, which the
  validation accepts under a policy other than the strict one. The expected offline
  instances are then computed from the spec and the named instances although the replicas
  are absolute (\<open>getCompExpectedOfflineInstances\<close> does not test the \<open>replicas\<close> field,
  which \<open>getCompExpectReplicas\<close> and \<open>getCompExpectedInstances\<close> do), so \<open>Action\<close>
  changes the offline instances of the spec, and the sets read differently from the spec
  it wrote and from the restored one. With three replicas and \<open>c-x-1\<close> offline, for the
  request of three replicas that takes \<open>c-x-1\<close> offline and brings it online: \<open>Action\<close>
  writes the spec with no offline instance, \<open>Cancel\<close> restores the first spec, the sets
  before cancelling are \<open>c-x-1\<close> to create and \<open>c-x-1\<close> to delete, and in the Cancelling
  phase they are \<open>c-x-3\<close> and \<open>c-x-1\<close> first and \<open>c-x-1\<close> second, which is not the swap.
\<close>

theorem Cancel_absolute_replicas_with_named_instances:
  "Action_updateComp exampleCollab
      (exOpsRes (exOpsRequest ''ops'' exIgnorePolicy OpsCreatingPhase exAbsoluteBothLists exSpecOffline)
         exSpecOffline)
      exSpecOffline exAbsoluteBothLists
     = Inr exSpec
   \<and> Cancel_updateComp (getLastComponentInfo exSpecOffline exAbsoluteBothLists) exSpec = Inr exSpecOffline
   \<and> getCreateAndDeletePodSet exampleCollab
        (exOpsRes (exOpsRequest ''ops'' exIgnorePolicy OpsRunningPhase exAbsoluteBothLists exSpecOffline) exSpec)
        (getLastComponentInfo exSpecOffline exAbsoluteBothLists) exSpec exAbsoluteBothLists ''x''
      = Inr ([(''c-x-1'', [])], [(''c-x-1'', [])])
   \<and> getCreateAndDeletePodSet exampleCollab
        (exOpsRes (exOpsRequest ''ops'' exIgnorePolicy OpsCancellingPhase exAbsoluteBothLists exSpecOffline)
           exSpecOffline)
        (getLastComponentInfo exSpecOffline exAbsoluteBothLists) exSpecOffline exAbsoluteBothLists ''x''
      = Inr ([(''c-x-3'', []), (''c-x-1'', [])], [(''c-x-1'', [])])
   \<and> podNames [(''c-x-3'', []), (''c-x-1'', [])] \<noteq> podNames [(''c-x-1'', [])]"
  by code_simp

subsection \<open>C3: conflicts with an earlier operation\<close>

lemma checkIntersectionWithEarlierOps_eq:
  assumes "getCreatedOrDeletedPodSet c opsRes v earlierOps v = Inr (created, d0)"
    and "getCreatedOrDeletedPodSet c opsRes v (OpsRequest opsRes) currOps = Inr (c0, deleted)"
  shows "checkIntersectionWithEarlierOps c opsRes earlierOps currOps v =
           (if podNames deleted \<inter> podNames created \<noteq> {}
            then Inl (FatalError (InstanceCreatedByAnotherOps (OR_Name earlierOps)))
            else Inr ())"
  using assms by (auto simp: checkIntersectionWithEarlierOps_def)

text \<open>
  Claim C3, as amended. \<open>Action\<close> hands \<open>abortEarlierOpsRequestWithSameKind\<close> a function
  that says, for an earlier request, whether it has to be aborted. For an earlier request
  with one component that the new request names too: when either request sets absolute
  replicas the answer is to abort the earlier one; otherwise, when the earlier request is
  still pending, there is no conflict; otherwise the created instances of the earlier
  request and the deleted instances of the new one are computed from the expected
  topologies, and when they share an instance the function returns the fatal error that the
  instance was created by another request, and does not ask for the earlier request to be
  aborted. An earlier start or stop request is always aborted.
\<close>

theorem Action_abortCondition_one_component:
  "(OR_Type earlierOps \<in> {StartType, StopType}
      \<longrightarrow> Action_abortCondition c opsRes componentOpsSet earlierOps = Inr True)
   \<and> (OR_Type earlierOps \<notin> {StartType, StopType}
       \<and> OR_HorizontalScalingList earlierOps = [v] \<and> componentOpsSet (ComponentName v) = Some currOps
      \<longrightarrow> (HS_Replicas currOps \<noteq> None \<or> HS_Replicas v \<noteq> None
             \<longrightarrow> Action_abortCondition c opsRes componentOpsSet earlierOps = Inr True)
        \<and> (HS_Replicas currOps = None \<and> HS_Replicas v = None \<and> OR_Phase earlierOps = OpsPendingPhase
             \<longrightarrow> Action_abortCondition c opsRes componentOpsSet earlierOps = Inr False)
        \<and> (\<forall>created d0 c0 deleted.
              HS_Replicas currOps = None \<and> HS_Replicas v = None \<and> OR_Phase earlierOps \<noteq> OpsPendingPhase
              \<and> getCreatedOrDeletedPodSet c opsRes v earlierOps v = Inr (created, d0)
              \<and> getCreatedOrDeletedPodSet c opsRes v (OpsRequest opsRes) currOps = Inr (c0, deleted)
             \<longrightarrow> Action_abortCondition c opsRes componentOpsSet earlierOps =
                   (if podNames deleted \<inter> podNames created \<noteq> {}
                    then Inl (FatalError (InstanceCreatedByAnotherOps (OR_Name earlierOps)))
                    else Inr False)))"
proof (intro conjI impI allI)
  assume "OR_Type earlierOps \<in> {StartType, StopType}"
  then show "Action_abortCondition c opsRes componentOpsSet earlierOps = Inr True"
    by (simp add: Action_abortCondition_def)
next
  assume a: "OR_Type earlierOps \<notin> {StartType, StopType}
       \<and> OR_HorizontalScalingList earlierOps = [v] \<and> componentOpsSet (ComponentName v) = Some currOps"
  {
    assume "HS_Replicas currOps \<noteq> None \<or> HS_Replicas v \<noteq> None"
    with a show "Action_abortCondition c opsRes componentOpsSet earlierOps = Inr True"
      by (auto simp: Action_abortCondition_def)
  next
    assume "HS_Replicas currOps = None \<and> HS_Replicas v = None \<and> OR_Phase earlierOps = OpsPendingPhase"
    with a show "Action_abortCondition c opsRes componentOpsSet earlierOps = Inr False"
      by (auto simp: Action_abortCondition_def)
  next
    fix created d0 c0 deleted
    assume b: "HS_Replicas currOps = None \<and> HS_Replicas v = None \<and> OR_Phase earlierOps \<noteq> OpsPendingPhase
              \<and> getCreatedOrDeletedPodSet c opsRes v earlierOps v = Inr (created, d0)
              \<and> getCreatedOrDeletedPodSet c opsRes v (OpsRequest opsRes) currOps = Inr (c0, deleted)"
    then have "checkIntersectionWithEarlierOps c opsRes earlierOps currOps v =
           (if podNames deleted \<inter> podNames created \<noteq> {}
            then Inl (FatalError (InstanceCreatedByAnotherOps (OR_Name earlierOps)))
            else Inr ())"
      using checkIntersectionWithEarlierOps_eq by blast
    with a b show "Action_abortCondition c opsRes componentOpsSet earlierOps =
                   (if podNames deleted \<inter> podNames created \<noteq> {}
                    then Inl (FatalError (InstanceCreatedByAnotherOps (OR_Name earlierOps)))
                    else Inr False)"
      by (simp add: Action_abortCondition_def)
  }
qed

theorem Action_abortCondition_one_component_witness:
  "Action_abortCondition exampleCollab
      (exOpsRes (exOpsRequest ''ops-b'' Map.empty OpsCreatingPhase exAbsolute exSpecFour) exSpecFour)
      [''x'' \<mapsto> exAbsolute] (exOpsRequest ''ops-a'' Map.empty OpsRunningPhase exPlusOne exSpec)
     = Inr True
   \<and> Action_abortCondition exampleCollab
      (exOpsRes (exOpsRequest ''ops-b'' Map.empty OpsCreatingPhase exTakeThreeOffline exSpecFour) exSpecFour)
      [''x'' \<mapsto> exTakeThreeOffline] (exOpsRequest ''ops-a'' Map.empty OpsPendingPhase exPlusOne exSpec)
     = Inr False
   \<and> Action_abortCondition exampleCollab
      (exOpsRes (exOpsRequest ''ops-b'' Map.empty OpsCreatingPhase exTakeThreeOffline exSpecFour) exSpecFour)
      [''x'' \<mapsto> exTakeThreeOffline] (exOpsRequest ''ops-a'' Map.empty OpsRunningPhase exPlusOne exSpec)
     = Inl (FatalError (InstanceCreatedByAnotherOps ''ops-a''))"
proof -
  let ?Rabs = "exOpsRes (exOpsRequest ''ops-b'' Map.empty OpsCreatingPhase exAbsolute exSpecFour) exSpecFour"
  let ?R = "exOpsRes (exOpsRequest ''ops-b'' Map.empty OpsCreatingPhase exTakeThreeOffline exSpecFour)
              exSpecFour"
  let ?A = "exOpsRequest ''ops-a'' Map.empty OpsRunningPhase exPlusOne exSpec"
  let ?P = "exOpsRequest ''ops-a'' Map.empty OpsPendingPhase exPlusOne exSpec"
  have a1: "OR_Type ?A \<notin> {StartType, StopType} \<and> OR_HorizontalScalingList ?A = [exPlusOne]
            \<and> [''x'' \<mapsto> exAbsolute] (ComponentName exPlusOne) = Some exAbsolute"
    by (simp add: exOpsRequest_def exPlusOne_def exRequest_def)
  have a2: "OR_Type ?P \<notin> {StartType, StopType} \<and> OR_HorizontalScalingList ?P = [exPlusOne]
            \<and> [''x'' \<mapsto> exTakeThreeOffline] (ComponentName exPlusOne) = Some exTakeThreeOffline"
    by (simp add: exOpsRequest_def exPlusOne_def exRequest_def)
  have a3: "OR_Type ?A \<notin> {StartType, StopType} \<and> OR_HorizontalScalingList ?A = [exPlusOne]
            \<and> [''x'' \<mapsto> exTakeThreeOffline] (ComponentName exPlusOne) = Some exTakeThreeOffline"
    by (simp add: exOpsRequest_def exPlusOne_def exRequest_def)
  have h1: "HS_Replicas exAbsolute \<noteq> None \<or> HS_Replicas exPlusOne \<noteq> None"
    by (simp add: exAbsolute_def exRequest_def)
  have h2: "HS_Replicas exTakeThreeOffline = None \<and> HS_Replicas exPlusOne = None
            \<and> OR_Phase ?P = OpsPendingPhase"
    by (simp add: exTakeThreeOffline_def exPlusOne_def exRequest_def exOpsRequest_def)
  have h3: "HS_Replicas exTakeThreeOffline = None \<and> HS_Replicas exPlusOne = None
            \<and> OR_Phase ?A \<noteq> OpsPendingPhase
            \<and> getCreatedOrDeletedPodSet exampleCollab ?R exPlusOne ?A exPlusOne
                = Inr ([(''c-x-3'', [])], [])
            \<and> getCreatedOrDeletedPodSet exampleCollab ?R exPlusOne (OpsRequest ?R) exTakeThreeOffline
                = Inr ([], [(''c-x-3'', [])])"
    by code_simp
  have n: "podNames [(''c-x-3'', [])] \<inter> podNames [(''c-x-3'', [])] \<noteq> {}" "OR_Name ?A = ''ops-a''"
    by (simp_all add: podNames_def exOpsRequest_def)
  note T1 = Action_abortCondition_one_component
    [where c = exampleCollab and opsRes = ?Rabs and componentOpsSet = "[''x'' \<mapsto> exAbsolute]"
       and earlierOps = ?A and v = exPlusOne and currOps = exAbsolute]
  note T2 = Action_abortCondition_one_component
    [where c = exampleCollab and opsRes = ?R and componentOpsSet = "[''x'' \<mapsto> exTakeThreeOffline]"
       and earlierOps = ?P and v = exPlusOne and currOps = exTakeThreeOffline]
  note T3 = Action_abortCondition_one_component
    [where c = exampleCollab and opsRes = ?R and componentOpsSet = "[''x'' \<mapsto> exTakeThreeOffline]"
       and earlierOps = ?A and v = exPlusOne and currOps = exTakeThreeOffline]
  from T1 [THEN conjunct2, rule_format, OF a1, THEN conjunct1, rule_format, OF h1]
  have 1: "Action_abortCondition exampleCollab ?Rabs [''x'' \<mapsto> exAbsolute] ?A = Inr True" .
  from T2 [THEN conjunct2, rule_format, OF a2, THEN conjunct2, THEN conjunct1, rule_format, OF h2]
  have 2: "Action_abortCondition exampleCollab ?R [''x'' \<mapsto> exTakeThreeOffline] ?P = Inr False" .
  from T3 [THEN conjunct2, rule_format, OF a3, THEN conjunct2, THEN conjunct2, rule_format, OF h3]
  have 3: "Action_abortCondition exampleCollab ?R [''x'' \<mapsto> exTakeThreeOffline] ?A
             = Inl (FatalError (InstanceCreatedByAnotherOps ''ops-a''))"
    using n by simp
  from 1 2 3 show ?thesis
    by blast
qed

theorem Action_abortCondition_one_component_counterexample:
  "OR_Phase (exOpsRequest ''ops-a'' Map.empty OpsRunningPhase exPlusOne exSpec) = OpsRunningPhase
   \<and> getCreatedOrDeletedPodSet exampleCollab
        (exOpsRes (exOpsRequest ''ops-b'' Map.empty OpsCreatingPhase exTakeThreeOffline exSpecFour) exSpecFour)
        exPlusOne (exOpsRequest ''ops-a'' Map.empty OpsRunningPhase exPlusOne exSpec) exPlusOne
      = Inr ([(''c-x-3'', [])], [])
   \<and> getCreatedOrDeletedPodSet exampleCollab
        (exOpsRes (exOpsRequest ''ops-b'' Map.empty OpsCreatingPhase exTakeThreeOffline exSpecFour) exSpecFour)
        exPlusOne (exOpsRequest ''ops-b'' Map.empty OpsCreatingPhase exTakeThreeOffline exSpecFour)
        exTakeThreeOffline
      = Inr ([], [(''c-x-3'', [])])
   \<and> Action_abortCondition exampleCollab
        (exOpsRes (exOpsRequest ''ops-b'' Map.empty OpsCreatingPhase exTakeThreeOffline exSpecFour) exSpecFour)
        [''x'' \<mapsto> exTakeThreeOffline] (exOpsRequest ''ops-a'' Map.empty OpsRunningPhase exPlusOne exSpec)
      = Inl (FatalError (InstanceCreatedByAnotherOps ''ops-a''))
   \<and> Action_abortCondition exampleCollab
        (exOpsRes (exOpsRequest ''ops-b'' Map.empty OpsCreatingPhase exTakeThreeOffline exSpecFour) exSpecFour)
        [''x'' \<mapsto> exTakeThreeOffline] (exOpsRequest ''ops-a'' Map.empty OpsRunningPhase exPlusOne exSpec)
      \<noteq> Inr True"
  by code_simp

subsection \<open>C4: the expected values in absolute and in delta mode\<close>

lemma getCompExpectReplicas_delta:
  "HS_Replicas hs = None
   \<Longrightarrow> getCompExpectReplicas hs r = r + replicaChangesOf (HS_ScaleOut hs) - replicaChangesOf (HS_ScaleIn hs)"
  by (simp add: getCompExpectReplicas_def replicaChangesOf_def split: option.splits)

lemma filterHorizontalScalingSpec_Replicas:
  "filterHorizontalScalingSpec c opsRes r i off hs = Inr filtered \<Longrightarrow> HS_Replicas filtered = HS_Replicas hs"
  by (auto simp: filterHorizontalScalingSpec_def split: sum.splits)

lemma autoSyncReplicaChanges_Replicas:
  "autoSyncReplicaChanges c opsRes filtered r i off = Inr synced \<Longrightarrow> HS_Replicas synced = HS_Replicas filtered"
  by (auto simp: autoSyncReplicaChanges_def Let_def)

lemma synced_changes_ScaleOut:
  assumes "filterHorizontalScalingSpec c opsRes r i off hs = Inr filtered"
    and "autoSyncReplicaChanges c opsRes filtered r i off' = Inr synced"
  shows "(HS_ScaleOut hs = None \<longrightarrow> replicaChangesOf (HS_ScaleOut synced) = 0)
       \<and> (\<forall>scaleOut a. HS_ScaleOut hs = Some scaleOut \<and> ReplicaChanges scaleOut = Some a
             \<longrightarrow> replicaChangesOf (HS_ScaleOut synced) = a)"
  using assms
  by (auto simp: filterHorizontalScalingSpec_def autoSyncReplicaChanges_def filterScaleOut_def
        getSyncedInstancesAndReplicaChanges_def replicaChangesOf_def Let_def
      split: sum.splits prod.splits)

lemma synced_changes_ScaleIn:
  assumes "filterHorizontalScalingSpec c opsRes r i off hs = Inr filtered"
    and "autoSyncReplicaChanges c opsRes filtered r i off' = Inr synced"
  shows "(HS_ScaleIn hs = None \<longrightarrow> replicaChangesOf (HS_ScaleIn synced) = 0)
       \<and> (\<forall>scaleIn a. HS_ScaleIn hs = Some scaleIn \<and> ReplicaChanges scaleIn = Some a
             \<longrightarrow> replicaChangesOf (HS_ScaleIn synced) = a)"
  using assms
  by (auto simp: filterHorizontalScalingSpec_def autoSyncReplicaChanges_def filterScaleIn_def
        getSyncedInstancesAndReplicaChanges_def replicaChangesOf_def Let_def
      split: sum.splits prod.splits)

lemma getExpectedCompValues_delta_Inr:
  assumes "HS_Replicas hs = None"
    and "getExpectedCompValues c opsRes compSpec lastCfg hs = Inr (r, tpls, off)"
  shows "\<exists>base filtered synced.
           LC_Replicas lastCfg = Some base
         \<and> filterHorizontalScalingSpec c opsRes base (LC_Instances lastCfg) (LC_OfflineInstances lastCfg) hs
             = Inr filtered
         \<and> autoSyncReplicaChanges c opsRes filtered base (LC_Instances lastCfg) off = Inr synced
         \<and> r = getCompExpectReplicas synced base
         \<and> tpls = getCompExpectedInstances c (LC_Instances lastCfg) synced
         \<and> off = getCompExpectedOfflineInstances (LC_OfflineInstances lastCfg) filtered"
  using assms
  by (auto simp: getExpectedCompValues_def Let_def split: option.splits sum.splits)

lemma getExpectedCompValues_absolute_Inr:
  assumes "HS_Replicas hs = Some n"
    and "getExpectedCompValues c opsRes compSpec lastCfg hs = Inr (r, tpls, off)"
  shows "r = n \<and> tpls = CS_Instances compSpec"
  using assms
  by (auto simp: getExpectedCompValues_def filterHorizontalScalingSpec_def autoSyncReplicaChanges_def
        getCompExpectReplicas_def getCompExpectedInstances_def Let_def
      split: sum.splits option.splits prod.splits)

text \<open>
  The expected values in each mode. When the request sets absolute replicas, the expected
  replicas are that value and the expected instance templates are those of the current
  component spec; the expected offline instances are those of the current spec when the
  request names no instance to take offline or to bring online. Otherwise the result does
  not depend on the current spec: the baseline is the last configuration, and the expected
  replicas are its replicas plus the \<open>replicaChanges\<close> of scale-out minus the
  \<open>replicaChanges\<close> of scale-in, as \<open>autoSyncReplicaChanges\<close> leaves them: nothing for a
  section the request does not have, and the value the request gives where it gives one.
\<close>

theorem getExpectedCompValues_by_mode:
  "(\<forall>n r tpls off.
       HS_Replicas hs = Some n
       \<and> getExpectedCompValues c opsRes compSpec lastCfg hs = Inr (r, tpls, off)
       \<longrightarrow> r = n \<and> tpls = CS_Instances compSpec)
   \<and> (\<forall>n. HS_Replicas hs = Some n
          \<and> (\<forall>scaleIn. HS_ScaleIn hs = Some scaleIn \<longrightarrow> OnlineInstancesToOffline scaleIn = [])
          \<and> (\<forall>scaleOut. HS_ScaleOut hs = Some scaleOut \<longrightarrow> OfflineInstancesToOnline scaleOut = [])
       \<longrightarrow> getExpectedCompValues c opsRes compSpec lastCfg hs =
             (case GenerateAllPodNamesToSet c (CS_Replicas compSpec) (CS_Instances compSpec)
                     (CS_OfflineInstances compSpec) (CL_Name (Cluster opsRes)) (ComponentName hs) of
                Inl msg \<Rightarrow> Inl (CollaboratorError msg)
              | Inr _ \<Rightarrow> Inr (n, CS_Instances compSpec, CS_OfflineInstances compSpec)))
   \<and> (HS_Replicas hs = None
       \<longrightarrow> getExpectedCompValues c opsRes compSpec' lastCfg hs
           = getExpectedCompValues c opsRes compSpec lastCfg hs)
   \<and> (\<forall>r tpls off.
         HS_Replicas hs = None
         \<and> getExpectedCompValues c opsRes compSpec lastCfg hs = Inr (r, tpls, off)
       \<longrightarrow> (\<exists>base filtered synced.
              LC_Replicas lastCfg = Some base
            \<and> filterHorizontalScalingSpec c opsRes base (LC_Instances lastCfg)
                 (LC_OfflineInstances lastCfg) hs = Inr filtered
            \<and> autoSyncReplicaChanges c opsRes filtered base (LC_Instances lastCfg) off = Inr synced
            \<and> r = base + replicaChangesOf (HS_ScaleOut synced) - replicaChangesOf (HS_ScaleIn synced)
            \<and> tpls = getCompExpectedInstances c (LC_Instances lastCfg) synced
            \<and> off = getCompExpectedOfflineInstances (LC_OfflineInstances lastCfg) filtered
            \<and> (HS_ScaleOut hs = None \<longrightarrow> replicaChangesOf (HS_ScaleOut synced) = 0)
            \<and> (\<forall>scaleOut a. HS_ScaleOut hs = Some scaleOut \<and> ReplicaChanges scaleOut = Some a
                  \<longrightarrow> replicaChangesOf (HS_ScaleOut synced) = a)
            \<and> (HS_ScaleIn hs = None \<longrightarrow> replicaChangesOf (HS_ScaleIn synced) = 0)
            \<and> (\<forall>scaleIn a. HS_ScaleIn hs = Some scaleIn \<and> ReplicaChanges scaleIn = Some a
                  \<longrightarrow> replicaChangesOf (HS_ScaleIn synced) = a)))"
proof (intro conjI allI impI)
  fix n r tpls off
  assume "HS_Replicas hs = Some n \<and> getExpectedCompValues c opsRes compSpec lastCfg hs = Inr (r, tpls, off)"
  then have "r = n \<and> tpls = CS_Instances compSpec"
    using getExpectedCompValues_absolute_Inr by blast
  then show "r = n" and "tpls = CS_Instances compSpec"
    by simp_all
next
  fix n
  assume "HS_Replicas hs = Some n
          \<and> (\<forall>scaleIn. HS_ScaleIn hs = Some scaleIn \<longrightarrow> OnlineInstancesToOffline scaleIn = [])
          \<and> (\<forall>scaleOut. HS_ScaleOut hs = Some scaleOut \<longrightarrow> OfflineInstancesToOnline scaleOut = [])"
  then show "getExpectedCompValues c opsRes compSpec lastCfg hs =
             (case GenerateAllPodNamesToSet c (CS_Replicas compSpec) (CS_Instances compSpec)
                     (CS_OfflineInstances compSpec) (CL_Name (Cluster opsRes)) (ComponentName hs) of
                Inl msg \<Rightarrow> Inl (CollaboratorError msg)
              | Inr _ \<Rightarrow> Inr (n, CS_Instances compSpec, CS_OfflineInstances compSpec))"
    using getExpectedCompValues_absolute by blast
next
  assume "HS_Replicas hs = None"
  then show "getExpectedCompValues c opsRes compSpec' lastCfg hs
           = getExpectedCompValues c opsRes compSpec lastCfg hs"
    by (rule getExpectedCompValues_delta_spec)
next
  fix r tpls off
  assume a: "HS_Replicas hs = None
         \<and> getExpectedCompValues c opsRes compSpec lastCfg hs = Inr (r, tpls, off)"
  then obtain base filtered synced where
    b: "LC_Replicas lastCfg = Some base"
    and f: "filterHorizontalScalingSpec c opsRes base (LC_Instances lastCfg)
              (LC_OfflineInstances lastCfg) hs = Inr filtered"
    and s: "autoSyncReplicaChanges c opsRes filtered base (LC_Instances lastCfg) off = Inr synced"
    and r: "r = getCompExpectReplicas synced base"
    and t: "tpls = getCompExpectedInstances c (LC_Instances lastCfg) synced"
    and off: "off = getCompExpectedOfflineInstances (LC_OfflineInstances lastCfg) filtered"
    using getExpectedCompValues_delta_Inr by blast
  have "HS_Replicas synced = None"
    using a f s filterHorizontalScalingSpec_Replicas autoSyncReplicaChanges_Replicas by metis
  then have r': "r = base + replicaChangesOf (HS_ScaleOut synced) - replicaChangesOf (HS_ScaleIn synced)"
    using r by (simp add: getCompExpectReplicas_delta)
  note so = synced_changes_ScaleOut [OF f s] and si = synced_changes_ScaleIn [OF f s]
  show "\<exists>base filtered synced.
              LC_Replicas lastCfg = Some base
            \<and> filterHorizontalScalingSpec c opsRes base (LC_Instances lastCfg)
                 (LC_OfflineInstances lastCfg) hs = Inr filtered
            \<and> autoSyncReplicaChanges c opsRes filtered base (LC_Instances lastCfg) off = Inr synced
            \<and> r = base + replicaChangesOf (HS_ScaleOut synced) - replicaChangesOf (HS_ScaleIn synced)
            \<and> tpls = getCompExpectedInstances c (LC_Instances lastCfg) synced
            \<and> off = getCompExpectedOfflineInstances (LC_OfflineInstances lastCfg) filtered
            \<and> (HS_ScaleOut hs = None \<longrightarrow> replicaChangesOf (HS_ScaleOut synced) = 0)
            \<and> (\<forall>scaleOut a. HS_ScaleOut hs = Some scaleOut \<and> ReplicaChanges scaleOut = Some a
                  \<longrightarrow> replicaChangesOf (HS_ScaleOut synced) = a)
            \<and> (HS_ScaleIn hs = None \<longrightarrow> replicaChangesOf (HS_ScaleIn synced) = 0)
            \<and> (\<forall>scaleIn a. HS_ScaleIn hs = Some scaleIn \<and> ReplicaChanges scaleIn = Some a
                  \<longrightarrow> replicaChangesOf (HS_ScaleIn synced) = a)"
    by (rule exI [of _ base], rule exI [of _ filtered], rule exI [of _ synced])
       (use b f s r' t off so si in auto)
qed

theorem getExpectedCompValues_by_mode_witness:
  "getExpectedCompValues exampleCollab
      (exOpsRes (exOpsRequest ''ops'' Map.empty OpsCreatingPhase exAbsolute exSpec) exSpecOffline)
      exSpecOffline (getLastComponentInfo exSpec exAbsolute) exAbsolute
     = Inr (5, CS_Instances exSpecOffline, CS_OfflineInstances exSpecOffline)
   \<and> getExpectedCompValues exampleCollab
      (exOpsRes (exOpsRequest ''ops'' Map.empty OpsCreatingPhase exTwoOutOneIn exSpec) exSpecOffline)
      exSpecOffline (getLastComponentInfo exSpec exTwoOutOneIn) exTwoOutOneIn
     = Inr (4, [], [])
   \<and> (\<exists>base. LC_Replicas (getLastComponentInfo exSpec exTwoOutOneIn) = Some base
         \<and> (4 :: int32) = base + 2 - 1)"
proof -
  let ?R1 = "exOpsRes (exOpsRequest ''ops'' Map.empty OpsCreatingPhase exAbsolute exSpec) exSpecOffline"
  let ?L1 = "getLastComponentInfo exSpec exAbsolute"
  let ?R2 = "exOpsRes (exOpsRequest ''ops'' Map.empty OpsCreatingPhase exTwoOutOneIn exSpec) exSpecOffline"
  let ?L2 = "getLastComponentInfo exSpec exTwoOutOneIn"
  have a: "HS_Replicas exAbsolute = Some 5
          \<and> (\<forall>scaleIn. HS_ScaleIn exAbsolute = Some scaleIn \<longrightarrow> OnlineInstancesToOffline scaleIn = [])
          \<and> (\<forall>scaleOut. HS_ScaleOut exAbsolute = Some scaleOut \<longrightarrow> OfflineInstancesToOnline scaleOut = [])"
    by (simp add: exAbsolute_def exRequest_def)
  have g: "GenerateAllPodNamesToSet exampleCollab (CS_Replicas exSpecOffline) (CS_Instances exSpecOffline)
             (CS_OfflineInstances exSpecOffline) (CL_Name (Cluster ?R1)) (ComponentName exAbsolute)
           = Inr [(''c-x-0'', []), (''c-x-2'', []), (''c-x-3'', [])]"
    by code_simp
  from getExpectedCompValues_by_mode
         [where c = exampleCollab and opsRes = ?R1 and compSpec = exSpecOffline and lastCfg = ?L1
            and hs = exAbsolute] a
  have "getExpectedCompValues exampleCollab ?R1 exSpecOffline ?L1 exAbsolute =
             (case GenerateAllPodNamesToSet exampleCollab (CS_Replicas exSpecOffline)
                     (CS_Instances exSpecOffline) (CS_OfflineInstances exSpecOffline)
                     (CL_Name (Cluster ?R1)) (ComponentName exAbsolute) of
                Inl msg \<Rightarrow> Inl (CollaboratorError msg)
              | Inr _ \<Rightarrow> Inr (5, CS_Instances exSpecOffline, CS_OfflineInstances exSpecOffline))"
    by blast
  then have 1: "getExpectedCompValues exampleCollab ?R1 exSpecOffline ?L1 exAbsolute
                  = Inr (5, CS_Instances exSpecOffline, CS_OfflineInstances exSpecOffline)"
    unfolding g by simp
  have d: "HS_Replicas exTwoOutOneIn = None
           \<and> getExpectedCompValues exampleCollab ?R2 exSpecOffline ?L2 exTwoOutOneIn = Inr (4, [], [])"
    by code_simp
  have o: "HS_ScaleOut exTwoOutOneIn = Some (exScaleOut (Some 2) [] [])
           \<and> ReplicaChanges (exScaleOut (Some 2) [] []) = Some 2"
    and i: "HS_ScaleIn exTwoOutOneIn = Some (exScaleIn (Some 1) [])
           \<and> ReplicaChanges (exScaleIn (Some 1) []) = Some 1"
    by (simp_all add: exTwoOutOneIn_def exRequest_def exScaleOut_def exScaleIn_def)
  note T = getExpectedCompValues_by_mode
         [where c = exampleCollab and opsRes = ?R2 and compSpec = exSpecOffline and lastCfg = ?L2
            and hs = exTwoOutOneIn]
  from T [THEN conjunct2, THEN conjunct2, THEN conjunct2, rule_format, OF d]
  have 3: "\<exists>base. LC_Replicas ?L2 = Some base \<and> (4 :: int32) = base + 2 - 1"
  proof (elim exE conjE)
    fix base filtered synced
    assume b: "LC_Replicas ?L2 = Some base"
      and r: "(4 :: int32) = base + replicaChangesOf (HS_ScaleOut synced) - replicaChangesOf (HS_ScaleIn synced)"
      and so: "\<forall>scaleOut a. HS_ScaleOut exTwoOutOneIn = Some scaleOut \<and> ReplicaChanges scaleOut = Some a
                 \<longrightarrow> replicaChangesOf (HS_ScaleOut synced) = a"
      and si: "\<forall>scaleIn a. HS_ScaleIn exTwoOutOneIn = Some scaleIn \<and> ReplicaChanges scaleIn = Some a
                 \<longrightarrow> replicaChangesOf (HS_ScaleIn synced) = a"
    from so o have "replicaChangesOf (HS_ScaleOut synced) = 2"
      by blast
    moreover from si i have "replicaChangesOf (HS_ScaleIn synced) = 1"
      by blast
    ultimately show "\<exists>base. LC_Replicas ?L2 = Some base \<and> (4 :: int32) = base + 2 - 1"
      using b r by simp
  qed
  from 1 d 3 show ?thesis
    by blast
qed

text \<open>
  Claim C4. The replicas, the templates and the delta mode are as the claim says, shown
  above. The offline instances of absolute mode are not: \<open>getCompExpectReplicas\<close> and
  \<open>getCompExpectedInstances\<close> return at once when the \<open>replicas\<close> field is set, and
  \<open>getCompExpectedOfflineInstances\<close> has no such test, so the instances that the request
  names are added to and removed from the offline instances of the current spec in
  absolute mode too. For the request of five replicas that takes \<open>c-x-1\<close> offline, on a
  spec of three replicas with no offline instance, the validation under the strict policy
  accepts the request, the expected offline instances are \<open>c-x-1\<close>, and \<open>Action\<close> writes
  them into the spec.
\<close>

theorem getExpectedCompValues_absolute_with_named_instance:
  "HS_Replicas exAbsoluteAndOffline = Some 5
   \<and> CS_OfflineInstances exSpec = []
   \<and> validateHorizontalScalingWithPolicy exampleCollab
        (exOpsRes (exOpsRequest ''ops'' Map.empty OpsCreatingPhase exAbsoluteAndOffline exSpec) exSpec)
        (getLastComponentInfo exSpec exAbsoluteAndOffline) exAbsoluteAndOffline
      = Inr ()
   \<and> getExpectedCompValues exampleCollab
        (exOpsRes (exOpsRequest ''ops'' Map.empty OpsCreatingPhase exAbsoluteAndOffline exSpec) exSpec)
        exSpec (getLastComponentInfo exSpec exAbsoluteAndOffline) exAbsoluteAndOffline
      = Inr (5, [], [''c-x-1''])
   \<and> Action_updateComp exampleCollab
        (exOpsRes (exOpsRequest ''ops'' Map.empty OpsCreatingPhase exAbsoluteAndOffline exSpec) exSpec)
        exSpec exAbsoluteAndOffline
      = Inr (exSpec\<lparr>CS_Replicas := 5, CS_OfflineInstances := [''c-x-1'']\<rparr>)"
  by code_simp

subsection \<open>C8: the created and the deleted instances of one operation\<close>

text \<open>
  Claim C8, as amended. The instances named in \<open>onlineInstancesToOffline\<close> are always
  added to the deleted set and those named in \<open>offlineInstancesToOnline\<close> to the created
  set, so a name in both lists is in both sets (the counterexample below, a request that
  passes the validation under a policy other than the strict one). The two sets are
  disjoint whenever every instance the request takes offline is in the pod set of the last
  configuration and no instance it brings online is.
\<close>

theorem created_deleted_disjoint:
  assumes res: "getCreateAndDeletePodSet c opsRes lastCfg cur hs fullCompName = Inr (created, deleted)"
    and lr: "LC_Replicas lastCfg = Some lastReplicas"
    and gen: "GenerateAllPodNamesToSet c lastReplicas (LC_Instances lastCfg) (LC_OfflineInstances lastCfg)
                (CL_Name (Cluster opsRes)) fullCompName = Inr lastPodSet"
    and off: "\<And>scaleIn. HS_ScaleIn hs = Some scaleIn
                \<Longrightarrow> set (OnlineInstancesToOffline scaleIn) \<subseteq> podNames lastPodSet"
    and on: "\<And>scaleOut. HS_ScaleOut hs = Some scaleOut
                \<Longrightarrow> set (OfflineInstancesToOnline scaleOut) \<inter> podNames lastPodSet = {}"
  shows "podNames created \<inter> podNames deleted = {}"
proof -
  from res lr gen obtain er et eo currPodSet where
    cur: "GenerateAllPodNamesToSet c er et eo (CL_Name (Cluster opsRes)) fullCompName = Inr currPodSet"
    and cd: "(if OR_Phase (OpsRequest opsRes) = OpsCancellingPhase then (deleted, created) else (created, deleted))
       = ((case HS_ScaleOut hs of
            Some scaleOut \<Rightarrow> assignAll (GetInstanceTemplateName c (CL_Name (Cluster opsRes)) fullCompName)
               (OfflineInstancesToOnline scaleOut)
               (podSetMinus (GetInstanceTemplateName c (CL_Name (Cluster opsRes)) fullCompName) currPodSet lastPodSet)
          | None \<Rightarrow> podSetMinus (GetInstanceTemplateName c (CL_Name (Cluster opsRes)) fullCompName) currPodSet lastPodSet),
          (case HS_ScaleIn hs of
            Some scaleIn \<Rightarrow> assignAll (GetInstanceTemplateName c (CL_Name (Cluster opsRes)) fullCompName)
               (OnlineInstancesToOffline scaleIn)
               (podSetMinus (GetInstanceTemplateName c (CL_Name (Cluster opsRes)) fullCompName) lastPodSet currPodSet)
          | None \<Rightarrow> podSetMinus (GetInstanceTemplateName c (CL_Name (Cluster opsRes)) fullCompName) lastPodSet currPodSet))"
    by (auto simp: getCreateAndDeletePodSet_def Let_def split: sum.splits prod.splits if_splits)
  define C where "C = fst (if OR_Phase (OpsRequest opsRes) = OpsCancellingPhase then (deleted, created) else (created, deleted))"
  define D where "D = snd (if OR_Phase (OpsRequest opsRes) = OpsCancellingPhase then (deleted, created) else (created, deleted))"
  have C: "podNames C \<inter> podNames lastPodSet = {}"
    unfolding C_def cd using on
    by (auto simp: podNames_assignAll podNames_podSetMinus split: option.splits)
  have D: "podNames D \<subseteq> podNames lastPodSet"
    unfolding D_def cd using off
    by (auto simp: podNames_assignAll podNames_podSetMinus split: option.splits)
  from C D have "podNames C \<inter> podNames D = {}" by blast
  then show ?thesis by (auto simp: C_def D_def split: if_splits)
qed

theorem created_deleted_disjoint_witness:
  "getCreateAndDeletePodSet exampleCollab
      (exOpsRes (exOpsRequest ''ops'' Map.empty OpsRunningPhase exSwap exSpecOffline) exSpecOffline)
      (getLastComponentInfo exSpecOffline exSwap) exSpecOffline exSwap ''x''
     = Inr ([(''c-x-1'', [])], [(''c-x-0'', [])])
   \<and> podNames [(''c-x-1'', [])] \<inter> podNames [(''c-x-0'', [])] = {}"
proof -
  let ?R = "exOpsRes (exOpsRequest ''ops'' Map.empty OpsRunningPhase exSwap exSpecOffline) exSpecOffline"
  let ?L = "getLastComponentInfo exSpecOffline exSwap"
  have res: "getCreateAndDeletePodSet exampleCollab ?R ?L exSpecOffline exSwap ''x''
             = Inr ([(''c-x-1'', [])], [(''c-x-0'', [])])"
    by code_simp
  have lr: "LC_Replicas ?L = Some 3"
    by code_simp
  have gen: "GenerateAllPodNamesToSet exampleCollab 3 (LC_Instances ?L) (LC_OfflineInstances ?L)
               (CL_Name (Cluster ?R)) ''x''
             = Inr [(''c-x-0'', []), (''c-x-2'', []), (''c-x-3'', [])]"
    by code_simp
  have off: "set (OnlineInstancesToOffline scaleIn)
               \<subseteq> podNames [(''c-x-0'', []), (''c-x-2'', []), (''c-x-3'', [])]"
    if "HS_ScaleIn exSwap = Some scaleIn" for scaleIn
    using that by (auto simp: exSwap_def exRequest_def exScaleIn_def podNames_def)
  have on: "set (OfflineInstancesToOnline scaleOut)
               \<inter> podNames [(''c-x-0'', []), (''c-x-2'', []), (''c-x-3'', [])] = {}"
    if "HS_ScaleOut exSwap = Some scaleOut" for scaleOut
    using that by (auto simp: exSwap_def exRequest_def exScaleOut_def podNames_def)
  from created_deleted_disjoint [OF res lr gen off on] res show ?thesis
    by blast
qed

theorem created_deleted_disjoint_counterexample:
  "validateHorizontalScalingWithPolicy exampleCollab
      (exOpsRes (exOpsRequest ''ops'' exIgnorePolicy OpsRunningPhase exBothLists exSpec) exSpec)
      (getLastComponentInfo exSpec exBothLists) exBothLists = Inr ()
   \<and> getCreateAndDeletePodSet exampleCollab
      (exOpsRes (exOpsRequest ''ops'' exIgnorePolicy OpsRunningPhase exBothLists exSpec) exSpec)
      (getLastComponentInfo exSpec exBothLists) exSpec exBothLists ''x''
     = Inr ([(''c-x-1'', [])], [(''c-x-1'', [])])
   \<and> ''c-x-1'' \<in> podNames [(''c-x-1'', [])] \<inter> podNames [(''c-x-1'', [])]"
  by code_simp

subsection \<open>C9: validation by policy\<close>

lemma length_foldl_setsInsert_Nil: "length (foldl setsInsert [] ys) = card (set ys)"
proof -
  have "distinct (foldl setsInsert [] ys)"
    by (rule distinct_foldl_setsInsert) simp
  then have "length (foldl setsInsert [] ys) = card (set (foldl setsInsert [] ys))"
    by (simp add: distinct_card)
  then show ?thesis
    by (simp add: set_foldl_setsInsert)
qed

lemma length_classified_eq:
  "length (foldl setsInsert [] (filter P xs)) = length xs \<longleftrightarrow> distinct xs \<and> (\<forall>x \<in> set xs. P x)"
proof
  assume eq: "length (foldl setsInsert [] (filter P xs)) = length xs"
  have 1: "card (set (filter P xs)) \<le> length (filter P xs)"
    by (rule card_length)
  have 2: "length (filter P xs) \<le> length xs"
    by (rule length_filter_le)
  from eq have c: "card (set (filter P xs)) = length xs"
    by (simp add: length_foldl_setsInsert_Nil)
  with 1 2 have l: "length (filter P xs) = length xs" and d: "card (set (filter P xs)) = length (filter P xs)"
    by linarith+
  from l have f: "filter P xs = xs"
    by (metis length_filter_less linorder_not_less order_refl filter_True)
  then have all: "\<forall>x \<in> set xs. P x"
    by (metis filter_id_conv)
  from d f have "distinct xs"
    by (simp add: card_distinct)
  with all show "distinct xs \<and> (\<forall>x \<in> set xs. P x)"
    by simp
next
  assume a: "distinct xs \<and> (\<forall>x \<in> set xs. P x)"
  then have "filter P xs = xs"
    by (simp add: filter_id_conv)
  with a show "length (foldl setsInsert [] (filter P xs)) = length xs"
    by (simp add: length_foldl_setsInsert_Nil distinct_card)
qed

lemma collect_foldl:
  "foldl (\<lambda>(onlined, offlined, notExist) insName.
              if insName \<in> set offlineInstances then (onlined, setsInsert offlined insName, notExist)
              else if insName \<in> podNames currPodSet then (setsInsert onlined insName, offlined, notExist)
              else (onlined, offlined, setsInsert notExist insName))
           (a, b, d) xs
   = (foldl setsInsert a (filter (\<lambda>n. n \<notin> set offlineInstances \<and> n \<in> podNames currPodSet) xs),
      foldl setsInsert b (filter (\<lambda>n. n \<in> set offlineInstances) xs),
      foldl setsInsert d (filter (\<lambda>n. n \<notin> set offlineInstances \<and> n \<notin> podNames currPodSet) xs))"
  by (induction xs arbitrary: a b d) auto

lemma collect_eq:
  "collectOnlineAndOfflineAndNotExistInstances xs offlineInstances currPodSet
   = (foldl setsInsert [] (filter (\<lambda>n. n \<notin> set offlineInstances \<and> n \<in> podNames currPodSet) xs),
      foldl setsInsert [] (filter (\<lambda>n. n \<in> set offlineInstances) xs),
      foldl setsInsert [] (filter (\<lambda>n. n \<notin> set offlineInstances \<and> n \<notin> podNames currPodSet) xs))"
  unfolding collectOnlineAndOfflineAndNotExistInstances_def by (rule collect_foldl)

lemma foldl_setsInsert_eq_Nil: "foldl setsInsert s ys = [] \<longleftrightarrow> s = [] \<and> ys = []"
  by (metis set_foldl_setsInsert Un_empty set_empty)

lemma setsUnion_eq_Nil: "setsUnion s ys = [] \<longleftrightarrow> s = [] \<and> ys = []"
  by (simp add: setsUnion_def foldl_setsInsert_eq_Nil)

lemma collecteAll_eq:
  fixes hs :: HorizontalScaling
  defines "toOffline \<equiv> (case HS_ScaleIn hs of Some scaleIn \<Rightarrow> OnlineInstancesToOffline scaleIn | None \<Rightarrow> [])"
    and "toOnline \<equiv> (case HS_ScaleOut hs of Some scaleOut \<Rightarrow> OfflineInstancesToOnline scaleOut | None \<Rightarrow> [])"
  shows "\<exists>notExist.
           collecteAllTypeOfInstancesFromOps hs currPodSet offlineInstances
           = (foldl setsInsert [] (filter (\<lambda>n. n \<notin> set offlineInstances \<and> n \<in> podNames currPodSet) toOffline),
              foldl setsInsert [] (filter (\<lambda>n. n \<in> set offlineInstances) toOnline),
              notExist)
         \<and> (notExist = [] \<longleftrightarrow>
               (\<forall>n \<in> set toOffline \<union> set toOnline. n \<in> set offlineInstances \<or> n \<in> podNames currPodSet))"
proof -
  have ne: "foldl setsInsert [] (filter P xs) = [] \<longleftrightarrow> (\<forall>n \<in> set xs. \<not> P n)" for P and xs :: "string list"
    by (simp add: foldl_setsInsert_eq_Nil filter_empty_conv)
  show ?thesis
    unfolding collecteAllTypeOfInstancesFromOps_def toOffline_def toOnline_def
    by (cases "HS_ScaleIn hs"; cases "HS_ScaleOut hs")
       (auto simp: collect_eq Let_def setsUnion_eq_Nil ne foldl_setsInsert_eq_Nil filter_empty_conv)
qed

lemma strictPolicyValidation_eq:
  fixes hs :: HorizontalScaling
  defines "toOffline \<equiv> (case HS_ScaleIn hs of Some scaleIn \<Rightarrow> OnlineInstancesToOffline scaleIn | None \<Rightarrow> [])"
    and "toOnline \<equiv> (case HS_ScaleOut hs of Some scaleOut \<Rightarrow> OfflineInstancesToOnline scaleOut | None \<Rightarrow> [])"
  shows "(strictPolicyValidation c hs onlined offlined = Inr ()
            \<longleftrightarrow> length onlined = length toOffline \<and> length offlined = length toOnline
                \<or> toOffline = [] \<and> length offlined = length toOnline
                \<or> length onlined = length toOffline \<and> toOnline = []
                \<or> toOffline = [] \<and> toOnline = [])
       \<and> (\<forall>e. strictPolicyValidation c hs onlined offlined = Inl e \<longrightarrow> (\<exists>f. e = FatalError f))"
  unfolding strictPolicyValidation_def toOffline_def toOnline_def
  by (cases "HS_ScaleIn hs"; cases "HS_ScaleOut hs") (auto split: if_splits)

text \<open>
  Claim C9. Let the names to take offline and to bring online be the two lists of the
  request, an instance be offline when the last configuration lists it as offline, and
  online when it is not offline and is in the pod set of the last configuration. Where
  the last configuration has its replicas and the instance names can be derived:
  a name that is neither offline nor in the pod set is the fatal error that the instances
  do not exist, under every policy; under a policy other than the strict one (an
  annotation with another value) a request whose names all exist is accepted; under the
  strict policy (no annotation, or the strict value) a request is accepted exactly when
  the names to take offline are online and without duplicates and the names to bring
  online are offline and without duplicates; and every error of the validation is fatal.
\<close>

theorem validation_by_policy:
  fixes c :: collab and opsRes :: OpsResource and lastCfg :: LastComponentConfiguration
    and hs :: HorizontalScaling and currPodSet :: podset
  defines "toOffline \<equiv> (case HS_ScaleIn hs of Some scaleIn \<Rightarrow> OnlineInstancesToOffline scaleIn | None \<Rightarrow> [])"
    and "toOnline \<equiv> (case HS_ScaleOut hs of Some scaleOut \<Rightarrow> OfflineInstancesToOnline scaleOut | None \<Rightarrow> [])"
    and "offline \<equiv> set (LC_OfflineInstances lastCfg)"
    and "strict \<equiv> (case OR_Annotations (OpsRequest opsRes) (HscaleValidatePolicyKey c) of
                      None \<Rightarrow> True | Some policy \<Rightarrow> policy = HscaleValidatePolicyStrict c)"
  assumes lr: "LC_Replicas lastCfg = Some lastReplicas"
    and gen: "GenerateAllPodNamesToSet c lastReplicas (LC_Instances lastCfg) (LC_OfflineInstances lastCfg)
                (CL_Name (Cluster opsRes)) (ComponentName hs) = Inr currPodSet"
  shows "(\<not> (\<forall>n \<in> set toOffline \<union> set toOnline. n \<in> offline \<or> n \<in> podNames currPodSet)
            \<longrightarrow> validateHorizontalScalingWithPolicy c opsRes lastCfg hs = Inl (FatalError InstancesNotExist))
       \<and> (\<not> strict \<and> (\<forall>n \<in> set toOffline \<union> set toOnline. n \<in> offline \<or> n \<in> podNames currPodSet)
            \<longrightarrow> validateHorizontalScalingWithPolicy c opsRes lastCfg hs = Inr ())
       \<and> (strict
            \<longrightarrow> (validateHorizontalScalingWithPolicy c opsRes lastCfg hs = Inr ()
                  \<longleftrightarrow> distinct toOffline \<and> (\<forall>n \<in> set toOffline. n \<notin> offline \<and> n \<in> podNames currPodSet)
                      \<and> distinct toOnline \<and> (\<forall>n \<in> set toOnline. n \<in> offline)))
       \<and> (\<forall>e. validateHorizontalScalingWithPolicy c opsRes lastCfg hs = Inl e \<longrightarrow> (\<exists>f. e = FatalError f))"
proof -
  let ?on = "foldl setsInsert [] (filter (\<lambda>n. n \<notin> offline \<and> n \<in> podNames currPodSet) toOffline)"
  let ?off = "foldl setsInsert [] (filter (\<lambda>n. n \<in> offline) toOnline)"
  let ?all = "\<forall>n \<in> set toOffline \<union> set toOnline. n \<in> offline \<or> n \<in> podNames currPodSet"
  obtain notExist where
    coll: "collecteAllTypeOfInstancesFromOps hs currPodSet (setsNew (LC_OfflineInstances lastCfg))
           = (?on, ?off, notExist)"
    and ne: "notExist = [] \<longleftrightarrow> ?all"
    using collecteAll_eq [of hs currPodSet "setsNew (LC_OfflineInstances lastCfg)"]
    unfolding toOffline_def toOnline_def offline_def set_setsNew by blast
  have v: "validateHorizontalScalingWithPolicy c opsRes lastCfg hs =
             (if notExist \<noteq> [] then Inl (FatalError InstancesNotExist)
              else if \<not> strict then Inr ()
              else strictPolicyValidation c hs ?on ?off)"
    unfolding validateHorizontalScalingWithPolicy_def strict_def
    by (simp add: lr gen coll Let_def split: option.splits)
  have s1: "strictPolicyValidation c hs ?on ?off = Inr ()
            \<longleftrightarrow> length ?on = length toOffline \<and> length ?off = length toOnline"
    using strictPolicyValidation_eq [of c hs ?on ?off]
    unfolding toOffline_def [symmetric] toOnline_def [symmetric]
    by auto
  have s2: "\<forall>e. strictPolicyValidation c hs ?on ?off = Inl e \<longrightarrow> (\<exists>f. e = FatalError f)"
    using strictPolicyValidation_eq [of c hs ?on ?off] by blast
  have 1: "\<not> ?all \<longrightarrow> validateHorizontalScalingWithPolicy c opsRes lastCfg hs = Inl (FatalError InstancesNotExist)"
    using v ne by simp
  have 2: "\<not> strict \<and> ?all \<longrightarrow> validateHorizontalScalingWithPolicy c opsRes lastCfg hs = Inr ()"
    using v ne by simp
  have 3: "strict \<longrightarrow> (validateHorizontalScalingWithPolicy c opsRes lastCfg hs = Inr ()
                  \<longleftrightarrow> distinct toOffline \<and> (\<forall>n \<in> set toOffline. n \<notin> offline \<and> n \<in> podNames currPodSet)
                      \<and> distinct toOnline \<and> (\<forall>n \<in> set toOnline. n \<in> offline))"
  proof
    assume strict
    then have "validateHorizontalScalingWithPolicy c opsRes lastCfg hs = Inr ()
               \<longleftrightarrow> ?all \<and> length ?on = length toOffline \<and> length ?off = length toOnline"
      using v ne s1 by auto
    also have "\<dots> \<longleftrightarrow> distinct toOffline \<and> (\<forall>n \<in> set toOffline. n \<notin> offline \<and> n \<in> podNames currPodSet)
                      \<and> distinct toOnline \<and> (\<forall>n \<in> set toOnline. n \<in> offline)"
      unfolding length_classified_eq by blast
    finally show "validateHorizontalScalingWithPolicy c opsRes lastCfg hs = Inr ()
                  \<longleftrightarrow> distinct toOffline \<and> (\<forall>n \<in> set toOffline. n \<notin> offline \<and> n \<in> podNames currPodSet)
                      \<and> distinct toOnline \<and> (\<forall>n \<in> set toOnline. n \<in> offline)" .
  qed
  have 4: "\<forall>e. validateHorizontalScalingWithPolicy c opsRes lastCfg hs = Inl e \<longrightarrow> (\<exists>f. e = FatalError f)"
    using v s2 by (auto split: if_splits)
  from 1 2 3 4 show ?thesis
    by blast
qed

theorem validation_by_policy_witness:
  "validateHorizontalScalingWithPolicy exampleCollab
      (exOpsRes (exOpsRequest ''ops'' Map.empty OpsCreatingPhase exSwap exSpecOffline) exSpecOffline)
      (getLastComponentInfo exSpecOffline exSwap) exSwap = Inr ()
   \<and> validateHorizontalScalingWithPolicy exampleCollab
      (exOpsRes (exOpsRequest ''ops'' exIgnorePolicy OpsCreatingPhase exBothLists exSpec) exSpec)
      (getLastComponentInfo exSpec exBothLists) exBothLists = Inr ()
   \<and> validateHorizontalScalingWithPolicy exampleCollab
      (exOpsRes (exOpsRequest ''ops'' exIgnorePolicy OpsCreatingPhase exGhost exSpec) exSpec)
      (getLastComponentInfo exSpec exGhost) exGhost = Inl (FatalError InstancesNotExist)
   \<and> validateHorizontalScalingWithPolicy exampleCollab
      (exOpsRes (exOpsRequest ''ops'' Map.empty OpsCreatingPhase exBothLists exSpec) exSpec)
      (getLastComponentInfo exSpec exBothLists) exBothLists = Inl (FatalError InstancesNotOfflineOrNotExist)"
proof -
  let ?R1 = "exOpsRes (exOpsRequest ''ops'' Map.empty OpsCreatingPhase exSwap exSpecOffline) exSpecOffline"
  let ?L1 = "getLastComponentInfo exSpecOffline exSwap"
  let ?P1 = "[(''c-x-0'', []), (''c-x-2'', []), (''c-x-3'', [])]"
  let ?R2 = "exOpsRes (exOpsRequest ''ops'' exIgnorePolicy OpsCreatingPhase exBothLists exSpec) exSpec"
  let ?L2 = "getLastComponentInfo exSpec exBothLists"
  let ?R3 = "exOpsRes (exOpsRequest ''ops'' exIgnorePolicy OpsCreatingPhase exGhost exSpec) exSpec"
  let ?L3 = "getLastComponentInfo exSpec exGhost"
  let ?P2 = "[(''c-x-0'', []), (''c-x-1'', []), (''c-x-2'', [])]"
  let ?toOffline1 = "case HS_ScaleIn exSwap of
                       Some scaleIn \<Rightarrow> OnlineInstancesToOffline scaleIn | None \<Rightarrow> []"
  let ?toOnline1 = "case HS_ScaleOut exSwap of
                      Some scaleOut \<Rightarrow> OfflineInstancesToOnline scaleOut | None \<Rightarrow> []"
  let ?toOffline2 = "case HS_ScaleIn exBothLists of
                       Some scaleIn \<Rightarrow> OnlineInstancesToOffline scaleIn | None \<Rightarrow> []"
  let ?toOnline2 = "case HS_ScaleOut exBothLists of
                      Some scaleOut \<Rightarrow> OfflineInstancesToOnline scaleOut | None \<Rightarrow> []"
  let ?toOffline3 = "case HS_ScaleIn exGhost of
                       Some scaleIn \<Rightarrow> OnlineInstancesToOffline scaleIn | None \<Rightarrow> []"
  let ?toOnline3 = "case HS_ScaleOut exGhost of
                      Some scaleOut \<Rightarrow> OfflineInstancesToOnline scaleOut | None \<Rightarrow> []"
  have lr1: "LC_Replicas ?L1 = Some 3" and lr2: "LC_Replicas ?L2 = Some 3"
    and lr3: "LC_Replicas ?L3 = Some 3"
    by code_simp+
  have g1: "GenerateAllPodNamesToSet exampleCollab 3 (LC_Instances ?L1) (LC_OfflineInstances ?L1)
              (CL_Name (Cluster ?R1)) (ComponentName exSwap) = Inr ?P1"
    by code_simp
  have g2: "GenerateAllPodNamesToSet exampleCollab 3 (LC_Instances ?L2) (LC_OfflineInstances ?L2)
              (CL_Name (Cluster ?R2)) (ComponentName exBothLists) = Inr ?P2"
    by code_simp
  have g3: "GenerateAllPodNamesToSet exampleCollab 3 (LC_Instances ?L3) (LC_OfflineInstances ?L3)
              (CL_Name (Cluster ?R3)) (ComponentName exGhost) = Inr ?P2"
    by code_simp
  have s1: "case OR_Annotations (OpsRequest ?R1) (HscaleValidatePolicyKey exampleCollab) of
              None \<Rightarrow> True | Some policy \<Rightarrow> policy = HscaleValidatePolicyStrict exampleCollab"
    by code_simp
  have c1: "distinct ?toOffline1
            \<and> (\<forall>n \<in> set ?toOffline1. n \<notin> set (LC_OfflineInstances ?L1) \<and> n \<in> podNames ?P1)
            \<and> distinct ?toOnline1 \<and> (\<forall>n \<in> set ?toOnline1. n \<in> set (LC_OfflineInstances ?L1))"
    by code_simp
  have s2: "\<not> (case OR_Annotations (OpsRequest ?R2) (HscaleValidatePolicyKey exampleCollab) of
                 None \<Rightarrow> True | Some policy \<Rightarrow> policy = HscaleValidatePolicyStrict exampleCollab)"
    by code_simp
  have c2: "\<forall>n \<in> set ?toOffline2 \<union> set ?toOnline2.
              n \<in> set (LC_OfflineInstances ?L2) \<or> n \<in> podNames ?P2"
    by code_simp
  have c3: "\<not> (\<forall>n \<in> set ?toOffline3 \<union> set ?toOnline3.
                 n \<in> set (LC_OfflineInstances ?L3) \<or> n \<in> podNames ?P2)"
    by code_simp
  from validation_by_policy [OF lr1 g1] s1 c1
  have 1: "validateHorizontalScalingWithPolicy exampleCollab ?R1 ?L1 exSwap = Inr ()"
    by blast
  from validation_by_policy [OF lr2 g2] s2 c2
  have 2: "validateHorizontalScalingWithPolicy exampleCollab ?R2 ?L2 exBothLists = Inr ()"
    by blast
  from validation_by_policy [OF lr3 g3] c3
  have 3: "validateHorizontalScalingWithPolicy exampleCollab ?R3 ?L3 exGhost
             = Inl (FatalError InstancesNotExist)"
    by blast
  have 4: "validateHorizontalScalingWithPolicy exampleCollab
             (exOpsRes (exOpsRequest ''ops'' Map.empty OpsCreatingPhase exBothLists exSpec) exSpec)
             ?L2 exBothLists = Inl (FatalError InstancesNotOfflineOrNotExist)"
    by code_simp
  from 1 2 3 4 show ?thesis
    by blast
qed

section \<open>Properties of object generation\<close>

subsection \<open>Auxiliary facts\<close>

lemma set_KeySet: "set (KeySet m) = fst ` set m"
  by (simp add: KeySet_def set_setsNew)

lemma distinct_KeySet: "distinct (KeySet m)"
  unfolding KeySet_def setsNew_def by (rule distinct_foldl_setsInsert) simp

lemma Transform_calls:
  assumes "Transform r False g = Inr calls"
  shows "\<exists>oldSnapshot newSnapshot createSet updateSet deleteSet.
           ReadCacheSnapshot r = Inr oldSnapshot
         \<and> buildNewSnapshot r (generatedObjects g) [] = Inr newSnapshot
         \<and> snapshotDiff oldSnapshot newSnapshot = (createSet, updateSet, deleteSet)
         \<and> calls = createNewObjects newSnapshot createSet
                    @ updateObjects oldSnapshot newSnapshot updateSet
                    @ deleteOrphanObjects r oldSnapshot deleteSet
                    @ [DependOn (G_sts g) [G_svc g, Some (G_headLessSvc g), Some (G_envConfig g)]]"
proof -
  from assms obtain oldSnapshot where old: "ReadCacheSnapshot r = Inr oldSnapshot"
    by (cases "ReadCacheSnapshot r") (simp_all add: Transform_def Let_def split: option.splits)
  from assms old obtain newSnapshot where new: "buildNewSnapshot r (generatedObjects g) [] = Inr newSnapshot"
    by (cases "buildNewSnapshot r (generatedObjects g) []")
       (simp_all add: Transform_def Let_def split: option.splits)
  obtain createSet updateSet deleteSet where
    diff: "snapshotDiff oldSnapshot newSnapshot = (createSet, updateSet, deleteSet)"
    by (cases "snapshotDiff oldSnapshot newSnapshot") simp
  from assms old new diff have
    "calls = createNewObjects newSnapshot createSet
                    @ updateObjects oldSnapshot newSnapshot updateSet
                    @ deleteOrphanObjects r oldSnapshot deleteSet
                    @ [DependOn (G_sts g) [G_svc g, Some (G_headLessSvc g), Some (G_envConfig g)]]"
    by (simp add: Transform_def Let_def split: option.splits)
  with old new diff show ?thesis
    by (intro exI conjI)
qed

lemma Delete_in_createNewObjects: "Delete obj \<notin> set (createNewObjects newSnapshot createSet)"
  by (auto simp: createNewObjects_def)

lemma Delete_in_updateObjects: "Delete obj \<notin> set (updateObjects oldSnapshot newSnapshot updateSet)"
  by (auto simp: updateObjects_def split: option.splits)

lemma Delete_in_deleteOrphanObjects:
  "Delete obj \<in> set (deleteOrphanObjects r oldSnapshot deleteSet)
   \<longleftrightarrow> (\<exists>name \<in> set deleteSet. obj = map_of oldSnapshot name
          \<and> \<not> (RSMCompatibilityMode r \<and> isConfigMap (map_of oldSnapshot name)))"
  by (auto simp: deleteOrphanObjects_def)

lemma lookupKey_mergeMetadataMap:
  "lookupKey (mergeMetadataMap originalMap targetMap) k =
     (case lookupKey targetMap k of Some v \<Rightarrow> Some v | None \<Rightarrow> lookupKey originalMap k)"
  by (simp add: lookupKey_def mergeMetadataMap_def split: option.splits)

subsection \<open>C5: the create, update and delete sets\<close>

text \<open>
  Claim C5. For every observed snapshot and every desired snapshot, the create set of
  \<open>Transform\<close> is the keys of the desired snapshot without those of the observed one, the
  update set is the keys of both, and the delete set is the keys of the observed snapshot
  without those of the desired one; the three sets are pairwise disjoint and together
  they are all the keys, so every key is in exactly one of them.
\<close>

theorem snapshotDiff_set_algebra:
  "snapshotDiff oldSnapshot newSnapshot = (createSet, updateSet, deleteSet)
   \<Longrightarrow> set createSet = fst ` set newSnapshot - fst ` set oldSnapshot
     \<and> set updateSet = fst ` set newSnapshot \<inter> fst ` set oldSnapshot
     \<and> set deleteSet = fst ` set oldSnapshot - fst ` set newSnapshot
     \<and> set createSet \<inter> set updateSet = {}
     \<and> set createSet \<inter> set deleteSet = {}
     \<and> set updateSet \<inter> set deleteSet = {}
     \<and> set createSet \<union> set updateSet \<union> set deleteSet = fst ` set oldSnapshot \<union> fst ` set newSnapshot"
proof -
  assume "snapshotDiff oldSnapshot newSnapshot = (createSet, updateSet, deleteSet)"
  then have c: "createSet = Difference (KeySet newSnapshot) (KeySet oldSnapshot)"
    and u: "updateSet = Intersection (KeySet newSnapshot) (KeySet oldSnapshot)"
    and d: "deleteSet = Difference (KeySet oldSnapshot) (KeySet newSnapshot)"
    by (simp_all add: snapshotDiff_def Let_def)
  define New where "New = fst ` set newSnapshot"
  define Old where "Old = fst ` set oldSnapshot"
  have s: "set createSet = New - Old" "set updateSet = New \<inter> Old" "set deleteSet = Old - New"
    unfolding c u d New_def Old_def by (auto simp: Difference_def Intersection_def set_KeySet)
  have "set createSet = New - Old \<and> set updateSet = New \<inter> Old \<and> set deleteSet = Old - New
     \<and> set createSet \<inter> set updateSet = {}
     \<and> set createSet \<inter> set deleteSet = {}
     \<and> set updateSet \<inter> set deleteSet = {}
     \<and> set createSet \<union> set updateSet \<union> set deleteSet = Old \<union> New"
    unfolding s by auto
  then show ?thesis
    unfolding New_def Old_def .
qed

theorem snapshotDiff_set_algebra_witness:
  "snapshotDiff exOldSnapshot exNewSnapshot
     = ([(''StatefulSet'', ''ns'', ''x'')],
        [(''Service'', ''ns'', ''x-headless''), (''ConfigMap'', ''ns'', ''x-env'')],
        [(''ConfigMap'', ''ns'', ''x-legacy''), (''Service'', ''ns'', ''x-old'')])
   \<and> set [(''StatefulSet'', ''ns'', ''x'')] = fst ` set exNewSnapshot - fst ` set exOldSnapshot
   \<and> set [(''ConfigMap'', ''ns'', ''x-legacy''), (''Service'', ''ns'', ''x-old'')]
       = fst ` set exOldSnapshot - fst ` set exNewSnapshot"
proof -
  have d: "snapshotDiff exOldSnapshot exNewSnapshot
     = ([(''StatefulSet'', ''ns'', ''x'')],
        [(''Service'', ''ns'', ''x-headless''), (''ConfigMap'', ''ns'', ''x-env'')],
        [(''ConfigMap'', ''ns'', ''x-legacy''), (''Service'', ''ns'', ''x-old'')])"
    by code_simp
  note T = snapshotDiff_set_algebra [OF d]
  from T have c: "set [(''StatefulSet'', ''ns'', ''x'')] = fst ` set exNewSnapshot - fst ` set exOldSnapshot"
    by (rule conjunct1)
  from T have e: "set [(''ConfigMap'', ''ns'', ''x-legacy''), (''Service'', ''ns'', ''x-old'')]
                    = fst ` set exOldSnapshot - fst ` set exNewSnapshot"
    by (elim conjE)
  from d c e show ?thesis
    by (intro conjI)
qed

subsection \<open>C7: the compatibility mode keeps config maps\<close>

text \<open>
  Claim C7. When \<open>Transform\<close> returns its calls, the objects it deletes are the objects of
  the observed snapshot under the names of the delete set, without the config maps when
  the compatibility mode is on: with the mode on no config map is deleted, and every
  member of the delete set that is not a config map is.
\<close>

theorem compatibility_mode_keeps_config_maps:
  assumes "Transform r False g = Inr calls"
  shows "(RSMCompatibilityMode r \<longrightarrow> (\<forall>obj. Delete obj \<in> set calls \<longrightarrow> \<not> isConfigMap obj))
       \<and> (\<exists>oldSnapshot newSnapshot createSet updateSet deleteSet.
             ReadCacheSnapshot r = Inr oldSnapshot
           \<and> buildNewSnapshot r (generatedObjects g) [] = Inr newSnapshot
           \<and> snapshotDiff oldSnapshot newSnapshot = (createSet, updateSet, deleteSet)
           \<and> (\<forall>obj. Delete obj \<in> set calls
                 \<longleftrightarrow> (\<exists>name \<in> set deleteSet. obj = map_of oldSnapshot name
                        \<and> \<not> (RSMCompatibilityMode r \<and> isConfigMap (map_of oldSnapshot name)))))"
proof -
  from Transform_calls [OF assms] obtain oldSnapshot newSnapshot createSet updateSet deleteSet where
    old: "ReadCacheSnapshot r = Inr oldSnapshot"
    and new: "buildNewSnapshot r (generatedObjects g) [] = Inr newSnapshot"
    and diff: "snapshotDiff oldSnapshot newSnapshot = (createSet, updateSet, deleteSet)"
    and calls: "calls = createNewObjects newSnapshot createSet
                    @ updateObjects oldSnapshot newSnapshot updateSet
                    @ deleteOrphanObjects r oldSnapshot deleteSet
                    @ [DependOn (G_sts g) [G_svc g, Some (G_headLessSvc g), Some (G_envConfig g)]]"
    by (elim exE conjE) (rule that)
  have del: "Delete obj \<in> set calls
               \<longleftrightarrow> (\<exists>name \<in> set deleteSet. obj = map_of oldSnapshot name
                      \<and> \<not> (RSMCompatibilityMode r \<and> isConfigMap (map_of oldSnapshot name)))" for obj
    unfolding calls
    by (simp add: Delete_in_createNewObjects Delete_in_updateObjects Delete_in_deleteOrphanObjects)
  have 1: "RSMCompatibilityMode r \<longrightarrow> (\<forall>obj. Delete obj \<in> set calls \<longrightarrow> \<not> isConfigMap obj)"
    by (auto simp: del)
  from del have del': "\<forall>obj. Delete obj \<in> set calls
                 \<longleftrightarrow> (\<exists>name \<in> set deleteSet. obj = map_of oldSnapshot name
                        \<and> \<not> (RSMCompatibilityMode r \<and> isConfigMap (map_of oldSnapshot name)))"
    by simp
  from old new diff del' have 2: "\<exists>oldSnapshot newSnapshot createSet updateSet deleteSet.
             ReadCacheSnapshot r = Inr oldSnapshot
           \<and> buildNewSnapshot r (generatedObjects g) [] = Inr newSnapshot
           \<and> snapshotDiff oldSnapshot newSnapshot = (createSet, updateSet, deleteSet)
           \<and> (\<forall>obj. Delete obj \<in> set calls
                 \<longleftrightarrow> (\<exists>name \<in> set deleteSet. obj = map_of oldSnapshot name
                        \<and> \<not> (RSMCompatibilityMode r \<and> isConfigMap (map_of oldSnapshot name))))"
    by (intro exI conjI)
  from 1 2 show ?thesis
    by (rule conjI)
qed

theorem compatibility_mode_keeps_config_maps_witness:
  "\<exists>calls. Transform (exRsmCollab True) False exGenerated = Inr calls
      \<and> Delete (Some (exService ''x-old'' None None ''old ports'')) \<in> set calls
      \<and> Delete (Some (exConfigMap ''x-legacy'' None None)) \<notin> set calls"
proof -
  have "\<exists>calls. Transform (exRsmCollab True) False exGenerated = Inr calls"
    by (simp add: Transform_def exRsmCollab_def exGenerated_def generatedObjects_def exGetGVKName_def
          exService_def exConfigMap_def exStatefulSet_def exMeta_def ObjectMeta.extend_def
          Service.fields_def ConfigMap.fields_def StatefulSet.fields_def split: prod.splits)
  then obtain calls where c: "Transform (exRsmCollab True) False exGenerated = Inr calls" ..
  have mode: "RSMCompatibilityMode (exRsmCollab True)"
    and rd: "ReadCacheSnapshot (exRsmCollab True) = Inr exOldSnapshot"
    by (simp_all add: exRsmCollab_def)
  have nw: "buildNewSnapshot (exRsmCollab True) (generatedObjects exGenerated) [] = Inr exNewSnapshot"
    by (simp add: exRsmCollab_def exGenerated_def generatedObjects_def exGetGVKName_def exNewSnapshot_def
          exService_def exConfigMap_def exStatefulSet_def exMeta_def ObjectMeta.extend_def
          Service.fields_def ConfigMap.fields_def StatefulSet.fields_def)
  have df: "snapshotDiff exOldSnapshot exNewSnapshot
     = ([(''StatefulSet'', ''ns'', ''x'')],
        [(''Service'', ''ns'', ''x-headless''), (''ConfigMap'', ''ns'', ''x-env'')],
        [(''ConfigMap'', ''ns'', ''x-legacy''), (''Service'', ''ns'', ''x-old'')])"
    by code_simp
  have lk: "map_of exOldSnapshot (''Service'', ''ns'', ''x-old'')
              = Some (exService ''x-old'' None None ''old ports'')"
    by (simp add: exOldSnapshot_def)
  have ic: "\<not> isConfigMap (Some (exService ''x-old'' None None ''old ports''))"
    "isConfigMap (Some (exConfigMap ''x-legacy'' None None))"
    by (simp_all add: isConfigMap_def exService_def exConfigMap_def)
  note T = compatibility_mode_keeps_config_maps [OF c]
  from T mode have no: "\<forall>obj. Delete obj \<in> set calls \<longrightarrow> \<not> isConfigMap obj"
    by simp
  with ic have 2: "Delete (Some (exConfigMap ''x-legacy'' None None)) \<notin> set calls"
    by blast
  from T [THEN conjunct2]
  have 1: "Delete (Some (exService ''x-old'' None None ''old ports'')) \<in> set calls"
  proof (elim exE conjE)
    fix oldSnapshot newSnapshot createSet updateSet deleteSet
    assume old: "ReadCacheSnapshot (exRsmCollab True) = Inr oldSnapshot"
      and new: "buildNewSnapshot (exRsmCollab True) (generatedObjects exGenerated) [] = Inr newSnapshot"
      and diff: "snapshotDiff oldSnapshot newSnapshot = (createSet, updateSet, deleteSet)"
      and del: "\<forall>obj. Delete obj \<in> set calls
                 \<longleftrightarrow> (\<exists>name \<in> set deleteSet. obj = map_of oldSnapshot name
                        \<and> \<not> (RSMCompatibilityMode (exRsmCollab True)
                               \<and> isConfigMap (map_of oldSnapshot name)))"
    from old rd have o: "oldSnapshot = exOldSnapshot"
      by simp
    from new nw have n: "newSnapshot = exNewSnapshot"
      by simp
    from diff df have d: "deleteSet = [(''ConfigMap'', ''ns'', ''x-legacy''), (''Service'', ''ns'', ''x-old'')]"
      unfolding o n by simp
    have "\<exists>name \<in> set deleteSet.
            Some (exService ''x-old'' None None ''old ports'') = map_of oldSnapshot name
            \<and> \<not> (RSMCompatibilityMode (exRsmCollab True) \<and> isConfigMap (map_of oldSnapshot name))"
      unfolding o d using lk ic by simp
    with del show "Delete (Some (exService ''x-old'' None None ''old ports'')) \<in> set calls"
      by blast
  qed
  from c 1 2 show ?thesis
    by (intro exI conjI)
qed

subsection \<open>C6: what copyAndMerge merges\<close>

lemma copyAndMerge_StatefulSet:
  "fst (copyAndMerge (StatefulSetObj old) (StatefulSetObj new))
     = Some (StatefulSetObj (fst (copyAndMergeSts old new)))"
  by (simp add: copyAndMerge_def DeepCopyObject_def split: prod.splits)

lemma copyAndMerge_Service:
  "fst (copyAndMerge (ServiceObj old) (ServiceObj new)) = Some (ServiceObj (fst (copyAndMergeSvc old new)))"
  by (simp add: copyAndMerge_def DeepCopyObject_def split: prod.splits)

lemma copyAndMerge_ConfigMap:
  "fst (copyAndMerge (ConfigMapObj old) (ConfigMapObj new)) = Some (ConfigMapObj (fst (copyAndMergeCm old new)))"
  by (simp add: copyAndMerge_def DeepCopyObject_def split: prod.splits)

lemma copyAndMerge_Other:
  "TypeOf oldObj = TypeOf (OtherObj new) \<Longrightarrow> fst (copyAndMerge oldObj (OtherObj new)) = Some (OtherObj new)"
  by (simp add: copyAndMerge_def)

text \<open>
  Claim C6, as amended. Objects of different concrete kinds merge to no object. Two
  stateful sets merge to the old one with its labels and the annotations of its pod
  template merged key by key (the new value where the new map has the key, the old value
  otherwise), the rest of the template, the replicas and the update strategy taken from
  the new object, and everything else, its own annotations among it, as in the old object.
  Two services merge to the old one with its annotations merged key by key and its spec
  taken from the new object; its labels and everything else are as in the old object. Two
  config maps merge to the old one with the data and the binary data of the new one; its
  labels and annotations are as in the old object. Two objects of one other kind merge to
  the new object: nothing of the old one is kept.
\<close>

theorem copyAndMerge_by_kind:
  "(TypeOf oldObj \<noteq> TypeOf newObj \<longrightarrow> fst (copyAndMerge oldObj newObj) = None)
   \<and> (\<forall>old new. oldObj = StatefulSetObj old \<and> newObj = StatefulSetObj new
        \<longrightarrow> (\<exists>m. fst (copyAndMerge oldObj newObj) = Some (StatefulSetObj m)
              \<and> (\<forall>k. lookupKey (Labels m) k =
                       (case lookupKey (Labels new) k of
                          Some v \<Rightarrow> Some v | None \<Rightarrow> lookupKey (Labels old) k))
              \<and> (\<forall>k. lookupKey (T_Annotations (Template (STS_Spec m))) k =
                       (case lookupKey (T_Annotations (Template (STS_Spec new))) k of
                          Some v \<Rightarrow> Some v
                        | None \<Rightarrow> lookupKey (T_Annotations (Template (STS_Spec old))) k))
              \<and> T_Other (Template (STS_Spec m)) = T_Other (Template (STS_Spec new))
              \<and> Replicas (STS_Spec m) = Replicas (STS_Spec new)
              \<and> UpdateStrategy (STS_Spec m) = UpdateStrategy (STS_Spec new)
              \<and> Spec_Other (STS_Spec m) = Spec_Other (STS_Spec old)
              \<and> STS_Status m = STS_Status old
              \<and> Namespace m = Namespace old \<and> Name m = Name old
              \<and> Annotations m = Annotations old \<and> Meta_Other m = Meta_Other old))
   \<and> (\<forall>old new. oldObj = ServiceObj old \<and> newObj = ServiceObj new
        \<longrightarrow> (\<exists>m. fst (copyAndMerge oldObj newObj) = Some (ServiceObj m)
              \<and> (\<forall>k. lookupKey (Annotations m) k =
                       (case lookupKey (Annotations new) k of
                          Some v \<Rightarrow> Some v | None \<Rightarrow> lookupKey (Annotations old) k))
              \<and> SVC_Spec m = SVC_Spec new
              \<and> SVC_Status m = SVC_Status old
              \<and> Namespace m = Namespace old \<and> Name m = Name old
              \<and> Labels m = Labels old \<and> Meta_Other m = Meta_Other old))
   \<and> (\<forall>old new. oldObj = ConfigMapObj old \<and> newObj = ConfigMapObj new
        \<longrightarrow> (\<exists>m. fst (copyAndMerge oldObj newObj) = Some (ConfigMapObj m)
              \<and> Data m = Data new \<and> BinaryData m = BinaryData new
              \<and> Immutable m = Immutable old
              \<and> Namespace m = Namespace old \<and> Name m = Name old
              \<and> Labels m = Labels old \<and> Annotations m = Annotations old
              \<and> Meta_Other m = Meta_Other old))
   \<and> (\<forall>old new. oldObj = OtherObj old \<and> newObj = OtherObj new \<and> GoType old = GoType new
        \<longrightarrow> fst (copyAndMerge oldObj newObj) = Some newObj)"
proof (intro conjI allI impI)
  assume "TypeOf oldObj \<noteq> TypeOf newObj"
  then show "fst (copyAndMerge oldObj newObj) = None"
    by (simp add: copyAndMerge_def)
next
  fix old new
  assume "oldObj = StatefulSetObj old \<and> newObj = StatefulSetObj new"
  then have e: "fst (copyAndMerge oldObj newObj) = Some (StatefulSetObj (fst (copyAndMergeSts old new)))"
    by (simp add: copyAndMerge_StatefulSet)
  show "\<exists>m. fst (copyAndMerge oldObj newObj) = Some (StatefulSetObj m)
              \<and> (\<forall>k. lookupKey (Labels m) k =
                       (case lookupKey (Labels new) k of
                          Some v \<Rightarrow> Some v | None \<Rightarrow> lookupKey (Labels old) k))
              \<and> (\<forall>k. lookupKey (T_Annotations (Template (STS_Spec m))) k =
                       (case lookupKey (T_Annotations (Template (STS_Spec new))) k of
                          Some v \<Rightarrow> Some v
                        | None \<Rightarrow> lookupKey (T_Annotations (Template (STS_Spec old))) k))
              \<and> T_Other (Template (STS_Spec m)) = T_Other (Template (STS_Spec new))
              \<and> Replicas (STS_Spec m) = Replicas (STS_Spec new)
              \<and> UpdateStrategy (STS_Spec m) = UpdateStrategy (STS_Spec new)
              \<and> Spec_Other (STS_Spec m) = Spec_Other (STS_Spec old)
              \<and> STS_Status m = STS_Status old
              \<and> Namespace m = Namespace old \<and> Name m = Name old
              \<and> Annotations m = Annotations old \<and> Meta_Other m = Meta_Other old"
    by (rule exI [of _ "fst (copyAndMergeSts old new)"])
       (simp add: e copyAndMergeSts_def Let_def lookupKey_mergeMetadataMap)
next
  fix old new
  assume "oldObj = ServiceObj old \<and> newObj = ServiceObj new"
  then have e: "fst (copyAndMerge oldObj newObj) = Some (ServiceObj (fst (copyAndMergeSvc old new)))"
    by (simp add: copyAndMerge_Service)
  show "\<exists>m. fst (copyAndMerge oldObj newObj) = Some (ServiceObj m)
              \<and> (\<forall>k. lookupKey (Annotations m) k =
                       (case lookupKey (Annotations new) k of
                          Some v \<Rightarrow> Some v | None \<Rightarrow> lookupKey (Annotations old) k))
              \<and> SVC_Spec m = SVC_Spec new
              \<and> SVC_Status m = SVC_Status old
              \<and> Namespace m = Namespace old \<and> Name m = Name old
              \<and> Labels m = Labels old \<and> Meta_Other m = Meta_Other old"
    by (rule exI [of _ "fst (copyAndMergeSvc old new)"])
       (simp add: e copyAndMergeSvc_def Let_def lookupKey_mergeMetadataMap)
next
  fix old new
  assume "oldObj = ConfigMapObj old \<and> newObj = ConfigMapObj new"
  then have e: "fst (copyAndMerge oldObj newObj) = Some (ConfigMapObj (fst (copyAndMergeCm old new)))"
    by (simp add: copyAndMerge_ConfigMap)
  show "\<exists>m. fst (copyAndMerge oldObj newObj) = Some (ConfigMapObj m)
              \<and> Data m = Data new \<and> BinaryData m = BinaryData new
              \<and> Immutable m = Immutable old
              \<and> Namespace m = Namespace old \<and> Name m = Name old
              \<and> Labels m = Labels old \<and> Annotations m = Annotations old
              \<and> Meta_Other m = Meta_Other old"
    by (rule exI [of _ "fst (copyAndMergeCm old new)"]) (simp add: e copyAndMergeCm_def)
next
  fix old new
  assume "oldObj = OtherObj old \<and> newObj = OtherObj new \<and> GoType old = GoType new"
  then show "fst (copyAndMerge oldObj newObj) = Some newObj"
    by (simp add: copyAndMerge_Other)
qed

theorem copyAndMerge_by_kind_witness:
  "fst (copyAndMerge exOldService (exConfigMap ''svc'' None None)) = None
   \<and> (\<exists>m. fst (copyAndMerge exOldService exNewService) = Some (ServiceObj m)
         \<and> lookupKey (Annotations m) ''a'' = Some ''9''
         \<and> lookupKey (Annotations m) ''b'' = Some ''2''
         \<and> SVC_Spec m = ''new ports''
         \<and> lookupKey (Labels m) ''app'' = Some ''v1'')"
proof -
  let ?old = "ObjectMeta.extend
                (exMeta ''svc'' (Some [''app'' \<mapsto> ''v1'']) (Some [''a'' \<mapsto> ''1'', ''b'' \<mapsto> ''2'']))
                (Service.fields ''old ports'' ''load balancer ready'')"
  let ?new = "ObjectMeta.extend (exMeta ''svc'' (Some [''app'' \<mapsto> ''v2'']) (Some [''a'' \<mapsto> ''9'']))
                (Service.fields ''new ports'' ''load balancer ready'')"
  have t: "TypeOf exOldService \<noteq> TypeOf (exConfigMap ''svc'' None None)"
    by (simp add: exOldService_def exService_def exConfigMap_def)
  have o: "exOldService = ServiceObj ?old \<and> exNewService = ServiceObj ?new"
    by (simp add: exOldService_def exNewService_def exService_def)
  have l: "lookupKey (Annotations ?new) ''a'' = Some ''9''" "lookupKey (Annotations ?new) ''b'' = None"
    "lookupKey (Annotations ?old) ''b'' = Some ''2''" "SVC_Spec ?new = ''new ports''"
    "lookupKey (Labels ?old) ''app'' = Some ''v1''"
    by (simp_all add: lookupKey_def exMeta_def ObjectMeta.extend_def Service.fields_def)
  from copyAndMerge_by_kind [of exOldService "exConfigMap ''svc'' None None"] t
  have 1: "fst (copyAndMerge exOldService (exConfigMap ''svc'' None None)) = None"
    by (elim conjE) simp
  note T = copyAndMerge_by_kind [of exOldService exNewService]
  from T [THEN conjunct2, THEN conjunct2, THEN conjunct1, rule_format, OF o]
  have 2: "\<exists>m. fst (copyAndMerge exOldService exNewService) = Some (ServiceObj m)
         \<and> lookupKey (Annotations m) ''a'' = Some ''9''
         \<and> lookupKey (Annotations m) ''b'' = Some ''2''
         \<and> SVC_Spec m = ''new ports''
         \<and> lookupKey (Labels m) ''app'' = Some ''v1''"
  proof (elim exE conjE)
    fix m
    assume e: "fst (copyAndMerge exOldService exNewService) = Some (ServiceObj m)"
      and a: "\<forall>k. lookupKey (Annotations m) k =
                (case lookupKey (Annotations ?new) k of
                   Some v \<Rightarrow> Some v | None \<Rightarrow> lookupKey (Annotations ?old) k)"
      and s: "SVC_Spec m = SVC_Spec ?new"
      and lb: "Labels m = Labels ?old"
    from a l have "lookupKey (Annotations m) ''a'' = Some ''9''" "lookupKey (Annotations m) ''b'' = Some ''2''"
      by simp_all
    with e s lb l show ?thesis
      by (intro exI [of _ m]) simp
  qed
  from 1 2 show ?thesis
    by (rule conjI)
qed

theorem copyAndMerge_by_kind_counterexample:
  "TypeOf exOldService = TypeOf exNewService
   \<and> lookupKey (objLabels exNewService) ''app'' = Some ''v2''
   \<and> map_option (\<lambda>m. lookupKey (objLabels m) ''app'') (fst (copyAndMerge exOldService exNewService))
       = Some (Some ''v1'')
   \<and> TypeOf exOldPod = TypeOf exNewPod
   \<and> lookupKey (objLabels exOldPod) ''keep'' = Some ''1''
   \<and> lookupKey (objLabels exNewPod) ''keep'' = None
   \<and> map_option (\<lambda>m. lookupKey (objLabels m) ''keep'') (fst (copyAndMerge exOldPod exNewPod))
       = Some None"
  by (simp add: exOldService_def exNewService_def exOldPod_def exNewPod_def exService_def exPod_def
        exMeta_def ObjectMeta.extend_def Service.fields_def OtherObject.fields_def
        copyAndMerge_def copyAndMergeSvc_def DeepCopyObject_def lookupKey_def mergeMetadataMap_def Let_def)

subsection \<open>C10: other kinds, and the old object\<close>

text \<open>
  Claim C10. For two objects of one concrete kind that is not StatefulSet, Service or
  ConfigMap, \<open>copyAndMerge\<close> returns the new object as it is. Whatever the two objects
  are, the object behind \<open>oldObj\<close> is after the call what it was before; for the three
  kinds the result has the kind of the old object and the namespace, the name and the
  other metadata of its deep copy. (The object behind \<open>newObj\<close> is written to: the
  witness shows a service whose annotations have changed.)
\<close>

theorem copyAndMerge_other_kinds_and_old_object:
  "(TypeOf oldObj = TypeOf newObj \<and> TypeOf newObj \<notin> {TStatefulSet, TService, TConfigMap}
      \<longrightarrow> fst (copyAndMerge oldObj newObj) = Some newObj)
   \<and> fst (snd (copyAndMerge oldObj newObj)) = oldObj
   \<and> (TypeOf oldObj = TypeOf newObj \<and> TypeOf newObj \<in> {TStatefulSet, TService, TConfigMap}
      \<longrightarrow> (\<exists>merged. fst (copyAndMerge oldObj newObj) = Some merged
            \<and> TypeOf merged = TypeOf oldObj
            \<and> objNamespace merged = objNamespace (DeepCopyObject oldObj)
            \<and> objName merged = objName (DeepCopyObject oldObj)
            \<and> objMetaOther merged = objMetaOther (DeepCopyObject oldObj)))"
proof (intro conjI impI)
  assume "TypeOf oldObj = TypeOf newObj \<and> TypeOf newObj \<notin> {TStatefulSet, TService, TConfigMap}"
  then show "fst (copyAndMerge oldObj newObj) = Some newObj"
    by (cases newObj) (simp_all add: copyAndMerge_def)
next
  show "fst (snd (copyAndMerge oldObj newObj)) = oldObj"
    by (cases newObj; cases oldObj) (simp_all add: copyAndMerge_def DeepCopyObject_def split: prod.splits)
next
  assume a: "TypeOf oldObj = TypeOf newObj \<and> TypeOf newObj \<in> {TStatefulSet, TService, TConfigMap}"
  show "\<exists>merged. fst (copyAndMerge oldObj newObj) = Some merged
            \<and> TypeOf merged = TypeOf oldObj
            \<and> objNamespace merged = objNamespace (DeepCopyObject oldObj)
            \<and> objName merged = objName (DeepCopyObject oldObj)
            \<and> objMetaOther merged = objMetaOther (DeepCopyObject oldObj)"
  proof (cases newObj)
    case (StatefulSetObj new)
    with a obtain old where "oldObj = StatefulSetObj old"
      by (cases oldObj) simp_all
    with StatefulSetObj show ?thesis
      by (simp add: copyAndMerge_StatefulSet copyAndMergeSts_def DeepCopyObject_def Let_def)
  next
    case (ServiceObj new)
    with a obtain old where "oldObj = ServiceObj old"
      by (cases oldObj) simp_all
    with ServiceObj show ?thesis
      by (simp add: copyAndMerge_Service copyAndMergeSvc_def DeepCopyObject_def Let_def)
  next
    case (ConfigMapObj new)
    with a obtain old where "oldObj = ConfigMapObj old"
      by (cases oldObj) simp_all
    with ConfigMapObj show ?thesis
      by (simp add: copyAndMerge_ConfigMap copyAndMergeCm_def DeepCopyObject_def)
  next
    case (OtherObj new)
    with a show ?thesis
      by simp
  qed
qed

theorem copyAndMerge_other_kinds_and_old_object_witness:
  "fst (copyAndMerge exOldPod exNewPod) = Some exNewPod
   \<and> fst (snd (copyAndMerge exOldService exNewService)) = exOldService
   \<and> (\<exists>merged. fst (copyAndMerge exOldService exNewService) = Some merged
         \<and> TypeOf merged = TService \<and> objName merged = ''svc'')
   \<and> lookupKey (objAnnotations exNewService) ''b'' = None
   \<and> lookupKey (objAnnotations (snd (snd (copyAndMerge exOldService exNewService)))) ''b'' = Some ''2''"
proof -
  have p: "TypeOf exOldPod = TypeOf exNewPod \<and> TypeOf exNewPod \<notin> {TStatefulSet, TService, TConfigMap}"
    by (simp add: exOldPod_def exNewPod_def exPod_def OtherObject.fields_def ObjectMeta.extend_def)
  have s: "TypeOf exOldService = TypeOf exNewService
           \<and> TypeOf exNewService \<in> {TStatefulSet, TService, TConfigMap}"
    by (simp add: exOldService_def exNewService_def exService_def)
  have o: "TypeOf exOldService = TService" "objName (DeepCopyObject exOldService) = ''svc''"
    by (simp_all add: exOldService_def exService_def exMeta_def DeepCopyObject_def ObjectMeta.extend_def)
  have w: "lookupKey (objAnnotations exNewService) ''b'' = None
           \<and> lookupKey (objAnnotations (snd (snd (copyAndMerge exOldService exNewService)))) ''b''
               = Some ''2''"
    by (simp add: exOldService_def exNewService_def exService_def exMeta_def ObjectMeta.extend_def
          Service.fields_def copyAndMerge_def copyAndMergeSvc_def DeepCopyObject_def lookupKey_def
          mergeMetadataMap_def Let_def)
  note P = copyAndMerge_other_kinds_and_old_object [of exOldPod exNewPod]
  note S = copyAndMerge_other_kinds_and_old_object [of exOldService exNewService]
  from P p have 1: "fst (copyAndMerge exOldPod exNewPod) = Some exNewPod"
    by (elim conjE) simp
  from S have 2: "fst (snd (copyAndMerge exOldService exNewService)) = exOldService"
    by (elim conjE)
  from S [THEN conjunct2, THEN conjunct2, rule_format, OF s]
  have 3: "\<exists>merged. fst (copyAndMerge exOldService exNewService) = Some merged
         \<and> TypeOf merged = TService \<and> objName merged = ''svc''"
    unfolding o by (elim exE conjE) (intro exI conjI)
  from 1 2 3 w show ?thesis
    by (intro conjI) simp_all
qed

end
